theory Spec2Isabelle
  imports Complex_Main
begin

section \<open>Python values used by app.py\<close>

text \<open>
  A Python float is an IEEE 754 binary64 number. It is modelled by its value: a finite
  number, one of the two infinities, or not-a-number; the sign of zero is not modelled.
  The finite values that occur are binary64 numbers, and every operation rounds its exact
  result to the nearest binary64 number, a tie going to the even significand, and overflows
  to an infinity, as the hardware does.
\<close>

datatype pyfloat = Fin real | PInf | NInf | NaN

text \<open>The integer nearest to a real, a tie going to the even one.\<close>

definition round_half_even :: "real \<Rightarrow> int" where
  "round_half_even x =
     (let f = \<lfloor>x\<rfloor>; d = x - of_int f
      in if d < 1 / 2 then f else if 1 / 2 < d then f + 1 else if even f then f else f + 1)"

text \<open>
  The binade of a positive number \<open>a\<close>: the exponent \<open>e\<close> with
  \<open>2 powi e \<le> a < 2 powi (e + 1)\<close>, kept within the exponents of binary64
  (\<open>- 1022\<close> for the subnormal numbers, \<open>1023\<close> at most), found by bisection.
\<close>

function find_binade :: "real \<Rightarrow> int \<Rightarrow> int \<Rightarrow> int" where
  "find_binade a lo hi =
     (if hi \<le> lo then lo
      else let mid = (lo + hi + 1) div 2
           in if 2 powi mid \<le> a then find_binade a mid hi else find_binade a lo (mid - 1))"
  by pat_completeness auto
termination
  by (relation "measure (\<lambda>(a, lo, hi). nat (hi - lo))") auto

declare find_binade.simps [simp del]

definition binade :: "real \<Rightarrow> int" where
  "binade a =
     (if a < 2 powi (- 1022) then - 1022
      else if 2 powi 1024 \<le> a then 1023
      else find_binade a (- 1022) 1023)"

text \<open>
  Rounding to binary64: the significand has 53 bits, so the numbers around \<open>x\<close> are the
  multiples of \<open>2 powi (binade \<bar>x\<bar> - 52)\<close>, and \<open>x\<close> goes to the nearest one. A
  result of magnitude \<open>2 powi 1024\<close> or more is an infinity.
\<close>

definition rnd :: "real \<Rightarrow> real" where
  "rnd x = (let q = binade \<bar>x\<bar> - 52 in of_int (round_half_even (x / 2 powi q)) * 2 powi q)"

definition b64 :: "real \<Rightarrow> pyfloat" where
  "b64 x =
     (if 2 powi 1024 \<le> \<bar>rnd x\<bar> then (if x < 0 then NInf else PInf) else Fin (rnd x))"

text \<open>A decimal literal of the source and \<^verbatim>\<open>float\<close> of a decimal text: the
  binary64 number nearest to the decimal.\<close>

definition lit :: "real \<Rightarrow> pyfloat" where
  "lit x = b64 x"

fun fsign :: "pyfloat \<Rightarrow> int" where
  "fsign (Fin x) = (if x < 0 then -1 else if x = 0 then 0 else 1)"
| "fsign PInf = 1"
| "fsign NInf = -1"
| "fsign NaN = 0"

text \<open>\<^verbatim>\<open>a + b\<close> on floats.\<close>

fun fadd :: "pyfloat \<Rightarrow> pyfloat \<Rightarrow> pyfloat" where
  "fadd (Fin x) (Fin y) = b64 (x + y)"
| "fadd NaN b = NaN"
| "fadd a NaN = NaN"
| "fadd PInf NInf = NaN"
| "fadd NInf PInf = NaN"
| "fadd PInf b = PInf"
| "fadd NInf b = NInf"
| "fadd a PInf = PInf"
| "fadd a NInf = NInf"

text \<open>\<^verbatim>\<open>a * b\<close> on floats.\<close>

fun fmul :: "pyfloat \<Rightarrow> pyfloat \<Rightarrow> pyfloat" where
  "fmul (Fin x) (Fin y) = b64 (x * y)"
| "fmul NaN b = NaN"
| "fmul a NaN = NaN"
| "fmul a b =
     (if fsign a = 0 \<or> fsign b = 0 then NaN else if fsign a = fsign b then PInf else NInf)"

text \<open>
  \<^verbatim>\<open>a / b\<close> for a finite number \<open>a\<close>, an \<^verbatim>\<open>int\<close> or a
  \<^verbatim>\<open>float\<close>, and a float literal \<open>b\<close> that is not zero, the only divisions
  of the module: both are converted to binary64 and the quotient is rounded.
\<close>

definition fdiv :: "real \<Rightarrow> real \<Rightarrow> pyfloat" where
  "fdiv a b = b64 (rnd a / rnd b)"

text \<open>\<^verbatim>\<open>a <= b\<close> on floats: every comparison with not-a-number is false.\<close>

fun fle :: "pyfloat \<Rightarrow> pyfloat \<Rightarrow> bool" where
  "fle (Fin x) (Fin y) = (x \<le> y)"
| "fle NaN b = False"
| "fle a NaN = False"
| "fle NInf b = True"
| "fle a PInf = True"
| "fle a b = False"

text \<open>\<^verbatim>\<open>a > b\<close> on floats, used to read "strictly greater than zero".\<close>

fun fgt :: "pyfloat \<Rightarrow> pyfloat \<Rightarrow> bool" where
  "fgt (Fin x) (Fin y) = (y < x)"
| "fgt NaN b = False"
| "fgt a NaN = False"
| "fgt PInf b = (b \<noteq> PInf)"
| "fgt a NInf = (a \<noteq> NInf)"
| "fgt a b = False"

text \<open>
  \<^verbatim>\<open>round(x, 2)\<close>: the exact value is rounded to the nearest decimal with
  two fractional digits, a tie going to the even last digit, and the result is the binary64
  number nearest to that decimal; infinities and not-a-number are returned as they are.
\<close>

fun py_round2 :: "pyfloat \<Rightarrow> pyfloat" where
  "py_round2 (Fin x) = b64 (of_int (round_half_even (x * 100)) / 100)"
| "py_round2 v = v"

text \<open>
  In the words of the specification, \<open>v\<close> is \<open>u\<close> rounded to 2 fractional digits:
  for a finite \<open>u\<close>, \<open>v\<close> is the binary64 number nearest to a decimal with two
  fractional digits that lies within half a hundredth of \<open>u\<close>.
\<close>

definition two_decimals :: "pyfloat \<Rightarrow> pyfloat \<Rightarrow> bool" where
  "two_decimals u v =
     (case u of
        Fin x \<Rightarrow> (\<exists>n::int. \<bar>of_int n / 100 - x\<bar> \<le> 1 / 200 \<and> v = b64 (of_int n / 100))
      | _ \<Rightarrow> v = u)"

text \<open>
  A string is a list of code points below 256. \<^verbatim>\<open>str.strip()\<close> with no
  argument removes, at both ends, the characters for which \<^verbatim>\<open>str.isspace\<close>
  holds; below 256 these are tab, line feed, vertical tab, form feed, carriage return, the
  separators 0x1C to 0x1F, the space, the next-line character 0x85 and the no-break space 0xA0.
\<close>

definition is_space :: "char \<Rightarrow> bool" where
  "is_space c \<longleftrightarrow>
     c \<in> set [CHR 0x09, CHR 0x0A, CHR 0x0B, CHR 0x0C, CHR 0x0D,
              CHR 0x1C, CHR 0x1D, CHR 0x1E, CHR 0x1F, CHR 0x20, CHR 0x85, CHR 0xA0]"

definition strip :: "string \<Rightarrow> string" where
  "strip s = rev (dropWhile is_space (rev (dropWhile is_space s)))"

text \<open>The exceptions that can leave a function of the module.\<close>

datatype py_error =
    UnicodeDecodeError
  | RequestException
  | ResponseError

section \<open>The trip document\<close>

record stop =
  address :: string
  datetime :: string

text \<open>A leg is the dictionary \<^verbatim>\<open>{"from": a, "to": b, "miles": d}\<close>.\<close>

record leg =
  leg_from :: string
  leg_to :: string
  miles :: pyfloat

record ticket =
  state :: string
  county :: string
  department :: string
  citing_officer :: string
  ticket_number :: string

record costs =
  gas :: pyfloat
  food :: pyfloat
  tolls :: pyfloat
  tickets :: "ticket list"

record trip =
  created_at :: string
  trip_type :: string
  start_address :: string
  end_address :: string
  start_datetime :: string
  arrival_datetime :: string
  stops :: "stop list"
  irs_business_rate :: pyfloat
  one_way_miles :: pyfloat
  total_miles :: pyfloat
  reimbursement :: pyfloat
  distance_source :: string
  distance_legs :: "leg list"
  costs :: costs

section \<open>What the module takes from outside\<close>

text \<open>
  \<^verbatim>\<open>data/trips.json\<close> is modelled by what \<^verbatim>\<open>Path.exists\<close>,
  \<^verbatim>\<open>Path.read_text(encoding="utf-8")\<close> and \<^verbatim>\<open>json.loads\<close> make of it:
  the file is absent; or its bytes are not UTF-8, so that \<^verbatim>\<open>read_text\<close> raises
  \<^verbatim>\<open>UnicodeDecodeError\<close>; or its text is not JSON, so that \<^verbatim>\<open>json.loads\<close>
  raises \<^verbatim>\<open>json.JSONDecodeError\<close>; or it holds the list of trips that
  \<^verbatim>\<open>json.dumps\<close> wrote (\<^verbatim>\<open>json.loads\<close> gives back what was dumped).
\<close>

datatype trips_file =
    Absent
  | Undecodable
  | Unparseable
  | Document "trip list"

type_synonym form = "string \<rightharpoonup> string"

type_synonym coords = "real list"

text \<open>
  The environment of a request: the \<^verbatim>\<open>ORS_API_KEY\<close> variable; the outcome of
  fetching the IRS page and matching the rate pattern (the matched number of cents, if any);
  the geocoding service (the coordinates of the features it returns, in order) and the
  directions service (the number of metres in its response), each of which may raise; Python's
  \<^verbatim>\<open>float\<close> on a string (\<open>None\<close> where it raises \<^verbatim>\<open>ValueError\<close>);
  and \<^verbatim>\<open>datetime.utcnow().isoformat()\<close>.
\<close>

record env =
  ORS_API_KEY :: "string option"
  irs_lookup :: "py_error + nat option"
  geocode_search :: "string \<Rightarrow> py_error + coords list"
  directions :: "coords \<Rightarrow> coords \<Rightarrow> py_error + real"
  float_of :: "string \<Rightarrow> pyfloat option"
  utcnow :: string

section \<open>The module\<close>

definition DEFAULT_IRS_BUSINESS_RATE :: pyfloat where
  "DEFAULT_IRS_BUSINESS_RATE = lit 0.70"

text \<open>\<^verbatim>\<open>_read_trips\<close>: only \<^verbatim>\<open>json.JSONDecodeError\<close> is caught.\<close>

fun read_trips :: "trips_file \<Rightarrow> py_error + trip list" where
  "read_trips Absent = Inr []"
| "read_trips Undecodable = Inl UnicodeDecodeError"
| "read_trips Unparseable = Inr []"
| "read_trips (Document trips) = Inr trips"

text \<open>\<^verbatim>\<open>_write_trips\<close>: the file then holds the dumped list.\<close>

definition write_trips :: "trip list \<Rightarrow> trips_file" where
  "write_trips trips = Document trips"

definition fetch_irs_business_rate :: "env \<Rightarrow> pyfloat" where
  "fetch_irs_business_rate e =
     (case irs_lookup e of
        Inl err \<Rightarrow> DEFAULT_IRS_BUSINESS_RATE
      | Inr None \<Rightarrow> DEFAULT_IRS_BUSINESS_RATE
      | Inr (Some cents) \<Rightarrow> fdiv (real cents) 100)"

text \<open>\<^verbatim>\<open>if not ORS_API_KEY\<close>: the variable is unset or empty.\<close>

definition no_key :: "env \<Rightarrow> bool" where
  "no_key e = (case ORS_API_KEY e of None \<Rightarrow> True | Some k \<Rightarrow> k = [])"

definition geocode_ors :: "env \<Rightarrow> string \<Rightarrow> py_error + coords option" where
  "geocode_ors e addr =
     (if no_key e then Inr None
      else case geocode_search e addr of
             Inl err \<Rightarrow> Inl err
           | Inr [] \<Rightarrow> Inr None
           | Inr (c # feats) \<Rightarrow> Inr (Some c))"

text \<open>\<^verbatim>\<open>not start or not end\<close> holds when a geocoding result is
  \<^verbatim>\<open>None\<close> or an empty list; both addresses are geocoded before the test.\<close>

definition driving_distance_miles_ors :: "env \<Rightarrow> string \<Rightarrow> string \<Rightarrow> py_error + pyfloat option" where
  "driving_distance_miles_ors e start_addr end_addr =
     (if no_key e then Inr None
      else case geocode_ors e start_addr of
             Inl err \<Rightarrow> Inl err
           | Inr start \<Rightarrow>
             (case geocode_ors e end_addr of
                Inl err \<Rightarrow> Inl err
              | Inr end' \<Rightarrow>
                (case (start, end') of
                   (Some s, Some t) \<Rightarrow>
                     (if s = [] \<or> t = [] then Inr None
                      else case directions e s t of
                             Inl err \<Rightarrow> Inl err
                           | Inr meters \<Rightarrow> Inr (Some (fdiv meters 1609.344)))
                 | _ \<Rightarrow> Inr None)))"

text \<open>\<^verbatim>\<open>safe_float(val)\<close> on a form value: \<open>None\<close> is the absent field
  (\<^verbatim>\<open>TypeError\<close>), and both exceptions give the default.\<close>

definition safe_float :: "env \<Rightarrow> string option \<Rightarrow> pyfloat \<Rightarrow> pyfloat" where
  "safe_float e val dflt =
     (case val of
        None \<Rightarrow> dflt
      | Some s \<Rightarrow> (case float_of e s of None \<Rightarrow> dflt | Some x \<Rightarrow> x))"

text \<open>\<^verbatim>\<open>request.form.get(key, default)\<close>.\<close>

definition form_get :: "form \<Rightarrow> string \<Rightarrow> string \<Rightarrow> string" where
  "form_get f key dflt = (case f key of None \<Rightarrow> dflt | Some v \<Rightarrow> v)"

text \<open>What a view leaves behind: the messages it flashed, its response, and the list it
  passed to \<^verbatim>\<open>_write_trips\<close> (\<open>None\<close> when it did not call it).\<close>

datatype response = Redirect string | Render string

record reply =
  flashed :: "(string \<times> string) list"
  response :: response
  written :: "trip list option"

record request =
  http_method :: string
  form :: form

definition file_after :: "trips_file \<Rightarrow> reply \<Rightarrow> trips_file" where
  "file_after file r = (case written r of None \<Rightarrow> file | Some trips \<Rightarrow> write_trips trips)"

subsection \<open>The mileage view\<close>

text \<open>The decimal text of a number inside an f-string; \<open>digit_char\<close> is applied
  below ten only.\<close>

definition digit_char :: "nat \<Rightarrow> char" where
  "digit_char n = ''0123456789'' ! n"

fun str_nat :: "nat \<Rightarrow> string" where
  "str_nat n = (if n < 10 then [digit_char n] else str_nat (n div 10) @ [digit_char (n mod 10)])"

declare str_nat.simps [simp del]

definition stop_key :: "nat \<Rightarrow> string \<Rightarrow> string" where
  "stop_key i field = ''stop_'' @ str_nat i @ ''_'' @ field"

text \<open>The loop over the stop slots, \<^verbatim>\<open>for i in range(1, 6)\<close>.\<close>

fun read_stops :: "form \<Rightarrow> nat list \<Rightarrow> stop list" where
  "read_stops f [] = []"
| "read_stops f (i # rest) =
     (let addr = strip (form_get f (stop_key i ''address'') []);
          dt = strip (form_get f (stop_key i ''datetime'') [])
      in (if addr \<noteq> [] \<or> dt \<noteq> [] then [\<lparr>address = addr, datetime = dt\<rparr>] else [])
         @ read_stops f rest)"

text \<open>\<^verbatim>\<open>points\<close>: start, the stops that have an address, end.\<close>

definition points :: "string \<Rightarrow> stop list \<Rightarrow> string \<Rightarrow> string list" where
  "points start stops' end' = [start] @ map address (filter (\<lambda>s. address s \<noteq> []) stops') @ [end']"

text \<open>
  The loop over \<^verbatim>\<open>zip(points, points[1:])\<close>. It carries \<^verbatim>\<open>total\<close> and
  \<^verbatim>\<open>computed_detail\<close>, and returns them with \<^verbatim>\<open>ok\<close>; at the first leg
  whose distance is \<^verbatim>\<open>None\<close> it breaks, and the legs appended so far stay in
  \<^verbatim>\<open>computed_detail\<close>. An exception of the distance function leaves the loop.
\<close>

fun legs_loop ::
  "env \<Rightarrow> (string \<times> string) list \<Rightarrow> pyfloat \<Rightarrow> leg list \<Rightarrow> py_error + (bool \<times> pyfloat \<times> leg list)"
where
  "legs_loop e [] total' computed_detail = Inr (True, total', computed_detail)"
| "legs_loop e ((a, b) # rest) total' computed_detail =
     (case driving_distance_miles_ors e a b of
        Inl err \<Rightarrow> Inl err
      | Inr None \<Rightarrow> Inr (False, total', computed_detail)
      | Inr (Some d) \<Rightarrow>
          legs_loop e rest (fadd total' d)
            (computed_detail @ [\<lparr>leg_from = a, leg_to = b, miles = d\<rparr>]))"

text \<open>Lines 151 to 168: \<^verbatim>\<open>computed_one_way\<close> and \<^verbatim>\<open>computed_detail\<close>.\<close>

definition route_legs ::
  "env \<Rightarrow> string \<Rightarrow> string \<Rightarrow> stop list \<Rightarrow> py_error + (pyfloat option \<times> leg list)"
where
  "route_legs e start end' stops' =
     (if \<not> no_key e \<and> start \<noteq> [] \<and> end' \<noteq> [] then
        (let pts = points start stops' end' in
         if 2 \<le> length pts then
           (case legs_loop e (zip pts (tl pts)) (Fin 0) [] of
              Inl err \<Rightarrow> Inl err
            | Inr (ok, total', computed_detail) \<Rightarrow>
                Inr (if ok then Some total' else None, computed_detail))
         else Inr (None, []))
      else Inr (None, []))"

text \<open>Lines 170 to 172: the computed distance if there is one, else the manual one,
  plus the extra stop miles.\<close>

definition final_one_way :: "pyfloat option \<Rightarrow> pyfloat \<Rightarrow> pyfloat \<Rightarrow> pyfloat" where
  "final_one_way computed_one_way manual_one_way_miles manual_stop_miles =
     fadd (case computed_one_way of Some c \<Rightarrow> c | None \<Rightarrow> manual_one_way_miles) manual_stop_miles"

definition flash_required :: "string \<times> string" where
  "flash_required = (''Start and End address are required.'', ''danger'')"

definition flash_miles :: "string \<times> string" where
  "flash_miles =
     (''Miles must be greater than 0 (enter manual miles or configure ORS_API_KEY).'', ''danger'')"

definition flash_saved :: "string \<times> string" where
  "flash_saved = (''Trip saved.'', ''success'')"

text \<open>Lines 182 to 209: the trip dictionary of an accepted submission.\<close>

definition build_trip ::
  "env \<Rightarrow> form \<Rightarrow> pyfloat \<Rightarrow> pyfloat \<Rightarrow> pyfloat option \<Rightarrow> leg list \<Rightarrow> trip"
where
  "build_trip e f rate one_way computed_one_way computed_detail =
     (let ttype = form_get f ''trip_type'' ''one_way'';
          total' = (if ttype = ''roundtrip'' then fmul one_way (Fin 2) else one_way);
          reimb = fmul total' rate
      in \<lparr>created_at = utcnow e @ ''Z'',
          trip_type = ttype,
          start_address = strip (form_get f ''start_address'' []),
          end_address = strip (form_get f ''end_address'' []),
          start_datetime = strip (form_get f ''start_datetime'' []),
          arrival_datetime = strip (form_get f ''arrival_datetime'' []),
          stops = read_stops f [1..<6],
          irs_business_rate = rate,
          one_way_miles = py_round2 one_way,
          total_miles = py_round2 total',
          reimbursement = py_round2 reimb,
          distance_source = (if computed_one_way \<noteq> None then ''openrouteservice'' else ''manual''),
          distance_legs = computed_detail,
          costs = \<lparr>gas = Fin 0, food = Fin 0, tolls = Fin 0, tickets = []\<rparr>\<rparr>)"

text \<open>Lines 133 to 172: the one-way distance before rounding, with
  \<^verbatim>\<open>computed_one_way\<close> and \<^verbatim>\<open>computed_detail\<close>.\<close>

definition resolve_distance ::
  "env \<Rightarrow> form \<Rightarrow> py_error + (pyfloat \<times> pyfloat option \<times> leg list)"
where
  "resolve_distance e f =
     (let start = strip (form_get f ''start_address'' []);
          end' = strip (form_get f ''end_address'' []);
          stops' = read_stops f [1..<6];
          manual_one_way_miles = safe_float e (f ''manual_one_way_miles'') (Fin 0);
          manual_stop_miles = safe_float e (f ''manual_stop_miles'') (Fin 0)
      in case route_legs e start end' stops' of
           Inl err \<Rightarrow> Inl err
         | Inr (computed_one_way, computed_detail) \<Rightarrow>
             Inr (final_one_way computed_one_way manual_one_way_miles manual_stop_miles,
                  computed_one_way, computed_detail))"

definition mileage_post :: "env \<Rightarrow> form \<Rightarrow> trips_file \<Rightarrow> py_error + reply" where
  "mileage_post e f file =
     (let rate = fetch_irs_business_rate e;
          start = strip (form_get f ''start_address'' []);
          end' = strip (form_get f ''end_address'' [])
      in case resolve_distance e f of
           Inl err \<Rightarrow> Inl err
         | Inr (one_way, computed_one_way, computed_detail) \<Rightarrow>
            if start = [] \<or> end' = [] then
              Inr \<lparr>flashed = [flash_required], response = Redirect ''mileage'', written = None\<rparr>
            else if fle one_way (Fin 0) then
              Inr \<lparr>flashed = [flash_miles], response = Redirect ''mileage'', written = None\<rparr>
            else
              (case read_trips file of
                 Inl err \<Rightarrow> Inl err
               | Inr trips \<Rightarrow>
                   Inr \<lparr>flashed = [flash_saved], response = Redirect ''index'',
                        written =
                          Some (trips @ [build_trip e f rate one_way computed_one_way computed_detail])\<rparr>))"

definition mileage :: "env \<Rightarrow> request \<Rightarrow> trips_file \<Rightarrow> py_error + reply" where
  "mileage e req file =
     (if http_method req = ''POST'' then mileage_post e (form req) file
      else Inr \<lparr>flashed = [], response = Render ''mileage.html'', written = None\<rparr>)"

subsection \<open>The costs view\<close>

text \<open>The ticket fields of the form, stripped.\<close>

definition form_ticket :: "form \<Rightarrow> ticket" where
  "form_ticket f =
     \<lparr>state = strip (form_get f ''ticket_state'' []),
      county = strip (form_get f ''ticket_county'' []),
      department = strip (form_get f ''ticket_department'' []),
      citing_officer = strip (form_get f ''ticket_officer'' []),
      ticket_number = strip (form_get f ''ticket_number'' [])\<rparr>"

text \<open>\<^verbatim>\<open>any([t_state, t_county, t_dept, t_officer, t_number])\<close>.\<close>

definition any_field :: "ticket \<Rightarrow> bool" where
  "any_field t \<longleftrightarrow>
     state t \<noteq> [] \<or> county t \<noteq> [] \<or> department t \<noteq> [] \<or> citing_officer t \<noteq> []
       \<or> ticket_number t \<noteq> []"

text \<open>The body of the loop for the trip that matches.\<close>

definition update_costs :: "pyfloat \<Rightarrow> pyfloat \<Rightarrow> pyfloat \<Rightarrow> ticket \<Rightarrow> trip \<Rightarrow> trip" where
  "update_costs g fd tl' t tr =
     tr\<lparr>costs :=
          \<lparr>gas = g, food = fd, tolls = tl',
           tickets = (if any_field t then tickets (costs tr) @ [t] else tickets (costs tr))\<rparr>\<rparr>"

text \<open>
  \<^verbatim>\<open>for trip in trips\<close>: the first trip whose \<^verbatim>\<open>created_at\<close> equals the
  submitted one is updated in place and the loop breaks. The result is the list after the
  loop and \<^verbatim>\<open>updated\<close>.
\<close>

fun costs_loop ::
  "string option \<Rightarrow> pyfloat \<Rightarrow> pyfloat \<Rightarrow> pyfloat \<Rightarrow> ticket \<Rightarrow> trip list \<Rightarrow> trip list \<times> bool"
where
  "costs_loop key g fd tl' t [] = ([], False)"
| "costs_loop key g fd tl' t (tr # rest) =
     (if Some (created_at tr) = key then (update_costs g fd tl' t tr # rest, True)
      else (let (rest', updated) = costs_loop key g fd tl' t rest in (tr # rest', updated)))"

definition flash_updated :: "string \<times> string" where
  "flash_updated = (''Costs updated.'', ''success'')"

definition flash_not_found :: "string \<times> string" where
  "flash_not_found = (''Trip not found.'', ''danger'')"

definition costs_post :: "env \<Rightarrow> form \<Rightarrow> trips_file \<Rightarrow> py_error + reply" where
  "costs_post e f file =
     (case read_trips file of
        Inl err \<Rightarrow> Inl err
      | Inr trips \<Rightarrow>
          (let key = f ''created_at'';
               g = safe_float e (f ''gas'') (Fin 0);
               fd = safe_float e (f ''food'') (Fin 0);
               tl' = safe_float e (f ''tolls'') (Fin 0);
               (trips', updated) = costs_loop key g fd tl' (form_ticket f) trips
           in if updated then
                Inr \<lparr>flashed = [flash_updated], response = Redirect ''costs'',
                     written = Some trips'\<rparr>
              else
                Inr \<lparr>flashed = [flash_not_found], response = Redirect ''costs'',
                     written = None\<rparr>))"

definition costs_view :: "env \<Rightarrow> request \<Rightarrow> trips_file \<Rightarrow> py_error + reply" where
  "costs_view e req file =
     (if http_method req = ''POST'' then costs_post e (form req) file
      else case read_trips file of
             Inl err \<Rightarrow> Inl err
           | Inr trips \<Rightarrow> Inr \<lparr>flashed = [], response = Render ''costs.html'', written = None\<rparr>)"

text \<open>The trips a view passed to \<^verbatim>\<open>_write_trips\<close>, none if it wrote nothing or
  raised.\<close>

definition stored :: "py_error + reply \<Rightarrow> trip list" where
  "stored res =
     (case res of
        Inl err \<Rightarrow> []
      | Inr r \<Rightarrow> (case written r of None \<Rightarrow> [] | Some trips \<Rightarrow> trips))"

definition post :: "form \<Rightarrow> request" where
  "post f = \<lparr>http_method = ''POST'', form = f\<rparr>"

section \<open>Concrete requests\<close>

text \<open>The values of Python's \<^verbatim>\<open>float\<close> on the strings used in the examples,
  each of them a binary64 number; on every other string the table raises
  \<^verbatim>\<open>ValueError\<close>.\<close>

definition float_table :: "string \<Rightarrow> pyfloat option" where
  "float_table s =
     (if s = ''10'' then Some (Fin 10)
      else if s = ''0.125'' then Some (Fin 0.125)
      else if s = ''0.625'' then Some (Fin 0.625)
      else if s = ''1.5'' then Some (Fin 1.5)
      else if s = ''25'' then Some (Fin 25)
      else if s = ''40'' then Some (Fin 40)
      else if s = ''nan'' then Some NaN
      else None)"

text \<open>No key is configured; the IRS page gives 70 cents.\<close>

definition env_manual :: env where
  "env_manual =
     \<lparr>ORS_API_KEY = None,
      irs_lookup = Inr (Some 70),
      geocode_search = (\<lambda>a. Inl RequestException),
      directions = (\<lambda>s t. Inl RequestException),
      float_of = float_table,
      utcnow = ''2025-03-01T12:00:00''\<rparr>"

text \<open>A key is configured; \<^verbatim>\<open>A\<close> and \<^verbatim>\<open>B\<close> geocode, every other address
  has no match; every route is 4828.032 metres (3 miles).\<close>

definition env_ors :: env where
  "env_ors =
     \<lparr>ORS_API_KEY = Some ''key'',
      irs_lookup = Inr (Some 70),
      geocode_search =
        (\<lambda>a. if a = ''A'' then Inr [[-122, 47]] else if a = ''B'' then Inr [[-121, 46]] else Inr []),
      directions = (\<lambda>s t. Inr 4828.032),
      float_of = float_table,
      utcnow = ''2025-03-01T12:00:00''\<rparr>"

definition form_one_way :: form where
  "form_one_way =
     [''trip_type'' \<mapsto> ''one_way'', ''start_address'' \<mapsto> ''A'', ''end_address'' \<mapsto> ''B'',
      ''manual_one_way_miles'' \<mapsto> ''10'', ''manual_stop_miles'' \<mapsto> ''1.5'']"

definition form_round_trip :: form where
  "form_round_trip =
     [''trip_type'' \<mapsto> ''round_trip'', ''start_address'' \<mapsto> ''A'', ''end_address'' \<mapsto> ''B'',
      ''manual_one_way_miles'' \<mapsto> ''10'']"

definition form_roundtrip :: form where
  "form_roundtrip =
     [''trip_type'' \<mapsto> ''roundtrip'', ''start_address'' \<mapsto> ''A'', ''end_address'' \<mapsto> ''B'',
      ''manual_one_way_miles'' \<mapsto> ''10'']"

text \<open>Round trips of an eighth and of five eighths of a mile.\<close>

definition form_five_eighths :: form where
  "form_five_eighths =
     [''trip_type'' \<mapsto> ''roundtrip'', ''start_address'' \<mapsto> ''A'', ''end_address'' \<mapsto> ''B'',
      ''manual_one_way_miles'' \<mapsto> ''0.625'']"


definition form_eighth :: form where
  "form_eighth =
     [''trip_type'' \<mapsto> ''roundtrip'', ''start_address'' \<mapsto> ''A'', ''end_address'' \<mapsto> ''B'',
      ''manual_one_way_miles'' \<mapsto> ''0.125'']"

text \<open>Start \<^verbatim>\<open>A\<close>, one stop \<^verbatim>\<open>B\<close>, end \<^verbatim>\<open>C\<close>, ten manual miles.\<close>

definition form_abc :: form where
  "form_abc =
     [''start_address'' \<mapsto> ''A'', ''stop_1_address'' \<mapsto> ''B'', ''end_address'' \<mapsto> ''C'',
      ''manual_one_way_miles'' \<mapsto> ''10'']"

definition form_ab :: form where
  "form_ab = [''start_address'' \<mapsto> ''A'', ''end_address'' \<mapsto> ''B'']"

definition form_nan :: form where
  "form_nan =
     [''start_address'' \<mapsto> ''A'', ''end_address'' \<mapsto> ''B'', ''manual_one_way_miles'' \<mapsto> ''nan'']"

text \<open>Two trips as the mileage view stores them, and a ledger that holds both.\<close>

definition trip_a :: trip where
  "trip_a =
     \<lparr>created_at = ''2025-01-01T08:00:00Z'', trip_type = ''one_way'',
      start_address = ''A'', end_address = ''B'', start_datetime = [], arrival_datetime = [],
      stops = [], irs_business_rate = lit 0.70, one_way_miles = Fin 10, total_miles = Fin 10,
      reimbursement = Fin 7, distance_source = ''manual'', distance_legs = [],
      costs = \<lparr>gas = Fin 0, food = Fin 0, tolls = Fin 0, tickets = []\<rparr>\<rparr>"

definition trip_b :: trip where
  "trip_b =
     \<lparr>created_at = ''2025-01-02T08:00:00Z'', trip_type = ''roundtrip'',
      start_address = ''B'', end_address = ''C'', start_datetime = [], arrival_datetime = [],
      stops = [], irs_business_rate = lit 0.70, one_way_miles = Fin 10, total_miles = Fin 20,
      reimbursement = Fin 14, distance_source = ''manual'', distance_legs = [],
      costs = \<lparr>gas = Fin 0, food = Fin 0, tolls = Fin 0, tickets = []\<rparr>\<rparr>"

definition ledger_ab :: trips_file where
  "ledger_ab = Document [trip_a, trip_b]"

text \<open>Two amendments of the second trip, each with one ticket field, and an amendment
  whose \<^verbatim>\<open>created_at\<close> is in no trip.\<close>

definition form_costs_1 :: form where
  "form_costs_1 =
     [''created_at'' \<mapsto> ''2025-01-02T08:00:00Z'', ''gas'' \<mapsto> ''25'', ''ticket_number'' \<mapsto> ''T1'']"

definition form_costs_2 :: form where
  "form_costs_2 =
     [''created_at'' \<mapsto> ''2025-01-02T08:00:00Z'', ''gas'' \<mapsto> ''40'', ''ticket_state'' \<mapsto> ''WA'']"

definition form_costs_missing :: form where
  "form_costs_missing = [''created_at'' \<mapsto> ''2024-12-31T00:00:00Z'', ''gas'' \<mapsto> ''25'']"

text \<open>The reply of a view that did not raise.\<close>

definition reply_of :: "py_error + reply \<Rightarrow> reply" where
  "reply_of res =
     (case res of
        Inl err \<Rightarrow> \<lparr>flashed = [], response = Render [], written = None\<rparr>
      | Inr r \<Rightarrow> r)"

text \<open>As \<open>env_ors\<close>, but the directions service raises.\<close>

definition env_ors_down :: env where
  "env_ors_down =
     \<lparr>ORS_API_KEY = Some ''key'',
      irs_lookup = Inr (Some 70),
      geocode_search =
        (\<lambda>a. if a = ''A'' then Inr [[-122, 47]] else if a = ''B'' then Inr [[-121, 46]] else Inr []),
      directions = (\<lambda>s t. Inl RequestException),
      float_of = float_table,
      utcnow = ''2025-03-01T12:00:00''\<rparr>"

section \<open>Properties of the arithmetic\<close>

text \<open>Rounding: the binade brackets the number, and the results are nearest.\<close>

lemma find_binade_bracket:
  "lo \<le> hi \<Longrightarrow> 2 powi lo \<le> a \<Longrightarrow> a < 2 powi (hi + 1) \<Longrightarrow>
     2 powi (find_binade a lo hi) \<le> a \<and> a < 2 powi (find_binade a lo hi + 1) \<and>
     lo \<le> find_binade a lo hi \<and> find_binade a lo hi \<le> hi"
proof (induction a lo hi rule: find_binade.induct)
  case (1 a lo hi)
  show ?case
  proof (cases "hi \<le> lo")
    case True
    with "1.prems" have "hi = lo" by simp
    with "1.prems" show ?thesis by (subst (1 2 3 4) find_binade.simps) simp
  next
    case False
    define mid where "mid = (lo + hi + 1) div 2"
    from False have m: "lo < mid" "mid \<le> hi" by (auto simp: mid_def)
    show ?thesis
    proof (cases "2 powi mid \<le> a")
      case True
      from "1.IH"(1) [OF False mid_def True] m True "1.prems"
      have "2 powi (find_binade a mid hi) \<le> a \<and> a < 2 powi (find_binade a mid hi + 1) \<and>
            mid \<le> find_binade a mid hi \<and> find_binade a mid hi \<le> hi" by simp
      moreover have "find_binade a lo hi = find_binade a mid hi"
        using False True by (subst find_binade.simps) (simp add: mid_def Let_def)
      ultimately show ?thesis using m by simp
    next
      case F2: False
      then have "a < 2 powi (mid - 1 + 1)" by simp
      from "1.IH"(2) [OF False mid_def F2 _ _ this] m "1.prems"
      have "2 powi (find_binade a lo (mid - 1)) \<le> a \<and> a < 2 powi (find_binade a lo (mid - 1) + 1) \<and>
            lo \<le> find_binade a lo (mid - 1) \<and> find_binade a lo (mid - 1) \<le> mid - 1" by simp
      moreover have "find_binade a lo hi = find_binade a lo (mid - 1)"
        using False F2 by (subst find_binade.simps) (simp add: mid_def Let_def)
      ultimately show ?thesis using m by simp
    qed
  qed
qed

lemma binade_bracket:
  assumes "2 powi (- 1022) \<le> a" and "a < 2 powi 1024"
  shows "2 powi (binade a) \<le> a \<and> a < 2 powi (binade a + 1)"
  using assms find_binade_bracket [of "- 1022" 1023 a] by (simp add: binade_def)

lemma binade_eqI:
  assumes "2 powi e \<le> a" and "a < 2 powi (e + 1)" and "- 1022 \<le> e" and "e \<le> 1023"
  shows "binade a = e"
proof -
  have lo: "(2::real) powi (- 1022) \<le> 2 powi e"
    using assms(3) by (intro power_int_increasing) auto
  have hi: "(2::real) powi (e + 1) \<le> 2 powi 1024"
    using assms(4) by (intro power_int_increasing) auto
  from lo hi assms have "2 powi (- 1022) \<le> a" "a < 2 powi 1024" by linarith+
  from binade_bracket [OF this] have
    b1: "2 powi (binade a) \<le> a" and b2: "a < 2 powi (binade a + 1)" by simp_all
  have "binade a < e + 1"
  proof (rule ccontr)
    assume "\<not> binade a < e + 1"
    then have "(2::real) powi (e + 1) \<le> 2 powi (binade a)"
      by (intro power_int_increasing) auto
    with b1 assms(2) show False by linarith
  qed
  moreover have "e < binade a + 1"
  proof (rule ccontr)
    assume "\<not> e < binade a + 1"
    then have "(2::real) powi (binade a + 1) \<le> 2 powi e"
      by (intro power_int_increasing) auto
    with b2 assms(1) show False by linarith
  qed
  ultimately show ?thesis by simp
qed

lemma round_half_even_near: "\<bar>of_int (round_half_even y) - y\<bar> \<le> 1 / 2"
proof -
  have "of_int \<lfloor>y\<rfloor> \<le> y" "y < of_int \<lfloor>y\<rfloor> + 1" by linarith+
  then show ?thesis by (auto simp: round_half_even_def Let_def)
qed

text \<open>\<open>rnd x\<close> is a multiple of the spacing at \<open>x\<close>, at most half a spacing away.\<close>

lemma rnd_near: "\<bar>rnd x - x\<bar> \<le> 2 powi (binade \<bar>x\<bar> - 52) / 2"
proof -
  define p :: real where "p = 2 powi (binade \<bar>x\<bar> - 52)"
  define m :: real where "m = of_int (round_half_even (x / p))"
  have pos: "0 < p" by (simp add: p_def)
  have "\<bar>m - x / p\<bar> \<le> 1 / 2"
    unfolding m_def by (rule round_half_even_near)
  then have "\<bar>m - x / p\<bar> * p \<le> 1 / 2 * p"
    using pos by (intro mult_right_mono) auto
  moreover have "\<bar>m - x / p\<bar> * p = \<bar>(m - x / p) * p\<bar>"
    using pos by (simp add: abs_mult)
  moreover have "(m - x / p) * p = m * p - x"
    using pos by (simp add: field_simps)
  ultimately have "\<bar>m * p - x\<bar> \<le> p / 2" by simp
  then show ?thesis by (simp add: rnd_def Let_def p_def m_def)
qed

text \<open>\<^verbatim>\<open>round(x, 2)\<close> rounds to 2 fractional digits.\<close>

lemma py_round2_two_decimals: "two_decimals u (py_round2 u)"
proof (cases u)
  case (Fin x)
  have "\<bar>of_int (round_half_even (x * 100)) - x * 100\<bar> \<le> 1 / 2"
    by (rule round_half_even_near)
  then have "\<bar>of_int (round_half_even (x * 100)) / 100 - x\<bar> \<le> 1 / 200"
    by (simp add: field_simps)
  with Fin show ?thesis by (auto simp: two_decimals_def)
qed (simp_all add: two_decimals_def)

lemmas float_simps =
  b64_def rnd_def binade_def find_binade.simps round_half_even_def Let_def lit_def fdiv_def

section \<open>Properties of the loops and views\<close>

lemma slots_eq: "[1..<6] = [1, 2, 3, 4, 5::nat]"
  by (simp add: upt_rec)

lemma slots_Suc_eq: "[Suc 0..<6] = [1, 2, 3, 4, 5::nat]"
  by (simp add: upt_rec)

lemmas eval_simps =
  slots_eq slots_Suc_eq str_nat.simps digit_char_def mileage_def mileage_post_def resolve_distance_def
  route_legs_def build_trip_def final_one_way_def points_def form_get_def safe_float_def
  strip_def is_space_def stop_key_def fetch_irs_business_rate_def no_key_def
  driving_distance_miles_ors_def geocode_ors_def float_table_def stored_def reply_of_def
  post_def round_half_even_def Let_def file_after_def write_trips_def
  b64_def rnd_def binade_def find_binade.simps lit_def fdiv_def
  costs_view_def costs_post_def form_ticket_def any_field_def update_costs_def

lemma mileage_post_eq: "mileage e (post f) file = mileage_post e f file"
  by (simp add: mileage_def post_def)

text \<open>What an accepted submission went through.\<close>

lemma mileage_post_written:
  assumes "mileage_post e f file = Inr r" and "written r = Some ts"
  shows "\<exists>ow co cd trips.
           resolve_distance e f = Inr (ow, co, cd) \<and>
           strip (form_get f ''start_address'' []) \<noteq> [] \<and>
           strip (form_get f ''end_address'' []) \<noteq> [] \<and>
           \<not> fle ow (Fin 0) \<and>
           read_trips file = Inr trips \<and>
           ts = trips @ [build_trip e f (fetch_irs_business_rate e) ow co cd] \<and>
           r = \<lparr>flashed = [flash_saved], response = Redirect ''index'', written = Some ts\<rparr>"
  using assms
  by (auto simp: mileage_post_def Let_def split: sum.splits prod.splits if_splits)

text \<open>The loop over the legs ends with \<^verbatim>\<open>ok\<close> exactly when every leg has a distance.\<close>

lemma legs_loop_ok:
  "legs_loop e ps t d = Inr (ok, t', d') \<Longrightarrow>
     ok \<longleftrightarrow> (\<forall>p\<in>set ps. \<exists>x. driving_distance_miles_ors e (fst p) (snd p) = Inr (Some x))"
proof (induction ps arbitrary: t d)
  case Nil
  then show ?case by simp
next
  case (Cons p ps)
  obtain a b where p: "p = (a, b)" by (cases p)
  show ?case
  proof (cases "driving_distance_miles_ors e a b")
    case (Inl err)
    with Cons.prems p show ?thesis by simp
  next
    case (Inr res)
    show ?thesis
    proof (cases res)
      case None
      with Cons.prems p Inr show ?thesis by auto
    next
      case (Some x)
      with Cons.prems p Inr have
        "legs_loop e ps (fadd t x) (d @ [\<lparr>leg_from = a, leg_to = b, miles = x\<rparr>]) = Inr (ok, t', d')"
        by simp
      from Cons.IH [OF this] p Inr Some show ?thesis by simp
    qed
  qed
qed

lemma route_legs_computed:
  assumes "route_legs e s en st = Inr (co, cd)"
  shows "co \<noteq> None \<longleftrightarrow>
           \<not> no_key e \<and> s \<noteq> [] \<and> en \<noteq> [] \<and>
           (\<forall>p\<in>set (zip (points s st en) (tl (points s st en))).
              \<exists>x. driving_distance_miles_ors e (fst p) (snd p) = Inr (Some x))"
proof (cases "\<not> no_key e \<and> s \<noteq> [] \<and> en \<noteq> []")
  case False
  with assms show ?thesis by (auto simp: route_legs_def)
next
  case True
  have len: "2 \<le> length (points s st en)" by (simp add: points_def)
  from assms True len obtain ok t' where
    ll: "legs_loop e (zip (points s st en) (tl (points s st en))) (Fin 0) [] = Inr (ok, t', cd)"
    and co: "co = (if ok then Some t' else None)"
    by (auto simp: route_legs_def Let_def split: sum.splits prod.splits)
  from legs_loop_ok [OF ll] co True show ?thesis by auto
qed

lemma resolve_distance_Inr:
  assumes "resolve_distance e f = Inr (ow, co, cd)"
  shows "route_legs e (strip (form_get f ''start_address'' [])) (strip (form_get f ''end_address'' []))
           (read_stops f [1..<6]) = Inr (co, cd) \<and>
         ow = final_one_way co (safe_float e (f ''manual_one_way_miles'') (Fin 0))
                (safe_float e (f ''manual_stop_miles'') (Fin 0))"
  using assms
  by (auto simp: resolve_distance_def Let_def split: sum.splits prod.splits)

text \<open>The loop over the trips: no match, and the first match.\<close>

lemma costs_loop_no_match:
  "\<forall>t\<in>set trips. Some (created_at t) \<noteq> key \<Longrightarrow> costs_loop key g fd tl' t trips = (trips, False)"
  by (induction trips) auto

lemma costs_loop_first:
  "i < length trips \<Longrightarrow> created_at (trips ! i) = k \<Longrightarrow> \<forall>j<i. created_at (trips ! j) \<noteq> k \<Longrightarrow>
     costs_loop (Some k) g fd tl' t trips = (trips[i := update_costs g fd tl' t (trips ! i)], True)"
proof (induction trips arbitrary: i)
  case Nil
  then show ?case by simp
next
  case (Cons tr rest)
  show ?case
  proof (cases i)
    case 0
    with Cons.prems show ?thesis by simp
  next
    case (Suc n)
    with Cons.prems have ne: "created_at tr \<noteq> k" by auto
    from Suc Cons.prems have "costs_loop (Some k) g fd tl' t rest =
        (rest[n := update_costs g fd tl' t (rest ! n)], True)"
      by (intro Cons.IH) auto
    with ne Suc show ?thesis by simp
  qed
qed

lemma costs_post_match:
  assumes "read_trips file = Inr trips" and "i < length trips"
      and "created_at (trips ! i) = k" and "\<forall>j<i. created_at (trips ! j) \<noteq> k"
      and "f ''created_at'' = Some k"
  shows "costs_view e (post f) file =
           Inr \<lparr>flashed = [flash_updated], response = Redirect ''costs'',
                written = Some (trips[i := update_costs (safe_float e (f ''gas'') (Fin 0))
                   (safe_float e (f ''food'') (Fin 0)) (safe_float e (f ''tolls'') (Fin 0))
                   (form_ticket f) (trips ! i)])\<rparr>"
  using assms
  by (simp add: costs_view_def post_def costs_post_def Let_def costs_loop_first)

text \<open>The names of the stop fields: a slot beyond the fifth is none of the five read.\<close>

lemma length_read_stops: "length (read_stops f slots) \<le> length slots"
  by (induction slots) (auto simp: Let_def)

lemma digit_char_not_underscore: "n < 10 \<Longrightarrow> digit_char n \<noteq> CHR ''_''"
proof -
  assume "n < 10"
  then have "digit_char n \<in> set ''0123456789''"
    unfolding digit_char_def by (intro nth_mem) simp
  then show ?thesis by auto
qed

lemma str_nat_no_underscore: "CHR ''_'' \<notin> set (str_nat n)"
proof (induction n rule: str_nat.induct)
  case (1 n)
  show ?case
  proof (cases "n < 10")
    case True
    with digit_char_not_underscore [of n] show ?thesis
      by (subst str_nat.simps) auto
  next
    case False
    with 1 digit_char_not_underscore [of "n mod 10"] show ?thesis
      by (subst str_nat.simps) auto
  qed
qed

lemma str_nat_not_Nil: "str_nat n \<noteq> []"
  by (subst str_nat.simps) simp

lemma str_nat_single: "str_nat n = [c] \<Longrightarrow> n < 10 \<and> c = digit_char n"
proof (cases "n < 10")
  case True
  assume "str_nat n = [c]"
  with True show ?thesis by (subst (asm) str_nat.simps) simp
next
  case False
  assume a: "str_nat n = [c]"
  from False have "str_nat n = str_nat (n div 10) @ [digit_char (n mod 10)]"
    by (subst str_nat.simps) simp
  with a str_nat_not_Nil [of "n div 10"] show ?thesis by (cases "str_nat (n div 10)") auto
qed

lemma digit_char_slot: "n < 10 \<Longrightarrow> j \<in> {1, 2, 3, 4, 5} \<Longrightarrow> digit_char n = digit_char j \<Longrightarrow> n = j"
proof -
  assume n: "n < 10" and j: "j \<in> {1, 2, 3, 4, 5}" and eq: "digit_char n = digit_char j"
  have d: "distinct ''0123456789''" by simp
  from j have "j < 10" by auto
  with n d eq show "n = j"
    by (simp add: digit_char_def nth_eq_iff_index_eq)
qed

lemma stop_key_fresh:
  assumes "5 < i" and "j \<in> {1, 2, 3, 4, 5}"
  shows "stop_key i x \<noteq> stop_key j y"
proof
  assume "stop_key i x = stop_key j y"
  moreover from assms(2) have "str_nat j = [digit_char j]" by (subst str_nat.simps) auto
  ultimately have eq: "str_nat i @ CHR ''_'' # x = digit_char j # CHR ''_'' # y"
    by (simp add: stop_key_def)
  show False
  proof (cases "str_nat i")
    case Nil
    with str_nat_not_Nil show False by blast
  next
    case (Cons c cs)
    show False
    proof (cases cs)
      case Nil
      with Cons eq have "str_nat i = [digit_char j]" by simp
      from str_nat_single [OF this] assms digit_char_slot [of i j] show False by auto
    next
      case (Cons c' cs')
      with \<open>str_nat i = c # cs\<close> eq have "c' = CHR ''_''" by simp
      with Cons \<open>str_nat i = c # cs\<close> str_nat_no_underscore [of i] show False by simp
    qed
  qed
qed

lemma read_stops_frame:
  assumes "5 < i" and "set slots \<subseteq> {1, 2, 3, 4, 5}"
  shows "read_stops (f(stop_key i x := a, stop_key i y := d)) slots = read_stops f slots"
  using assms(2)
proof (induction slots)
  case Nil
  then show ?case by simp
next
  case (Cons j slots)
  then have j: "j \<in> {1, 2, 3, 4, 5}" by simp
  from stop_key_fresh [OF assms(1) j] have
    "stop_key j ''address'' \<noteq> stop_key i x" "stop_key j ''address'' \<noteq> stop_key i y"
    "stop_key j ''datetime'' \<noteq> stop_key i x" "stop_key j ''datetime'' \<noteq> stop_key i y"
    by metis+
  with Cons show ?case by (simp add: form_get_def Let_def)
qed

lemma slots_1_6: "set [1..<6] \<subseteq> {1, 2, 3, 4, 5::nat}"
  by auto

lemma stop_key_not_field:
  "stop_key i x \<noteq> ''trip_type''" "stop_key i x \<noteq> ''start_address''"
  "stop_key i x \<noteq> ''end_address''" "stop_key i x \<noteq> ''start_datetime''"
  "stop_key i x \<noteq> ''arrival_datetime''" "stop_key i x \<noteq> ''manual_one_way_miles''"
  "stop_key i x \<noteq> ''manual_stop_miles''"
  by (simp_all add: stop_key_def)

text \<open>The two rejections of the mileage view.\<close>

lemma mileage_rejects_address:
  assumes "strip (form_get f ''start_address'' []) = [] \<or> strip (form_get f ''end_address'' []) = []"
  shows "mileage e (post f) file =
           Inr \<lparr>flashed = [flash_required], response = Redirect ''mileage'', written = None\<rparr>"
  using assms
  by (auto simp: mileage_post_eq mileage_post_def resolve_distance_def route_legs_def Let_def)

lemma mileage_rejects_miles:
  assumes "resolve_distance e f = Inr (ow, co, cd)" and "fle ow (Fin 0)"
  shows "\<exists>msg. mileage e (post f) file =
           Inr \<lparr>flashed = [msg], response = Redirect ''mileage'', written = None\<rparr>"
  using assms
  by (auto simp: mileage_post_eq mileage_post_def Let_def)

lemma not_positive_fle: "\<not> fgt ow (Fin 0) \<Longrightarrow> ow \<noteq> NaN \<Longrightarrow> fle ow (Fin 0)"
  by (cases ow) auto

section \<open>The claims\<close>

text \<open>
  C1. The claim: when the key is configured and some consecutive pair of waypoints does not
  resolve, the stored trip has the source \<^verbatim>\<open>manual\<close>, the manual one-way distance
  (plus the extra miles) and no legs. The code keeps the legs it had appended before the
  failure: with start \<^verbatim>\<open>A\<close>, stop \<^verbatim>\<open>B\<close>, end \<^verbatim>\<open>C\<close>, where the
  first leg is 3 miles and the second has no geocoding match, the stored trip has the source
  \<^verbatim>\<open>manual\<close>, the ten manual miles, and the leg from \<^verbatim>\<open>A\<close> to \<^verbatim>\<open>B\<close>.
  When the service fails by raising, the exception leaves the view and nothing is stored.
\<close>

theorem C1_partial_legs_kept:
  "driving_distance_miles_ors env_ors ''A'' ''B'' = Inr (Some (Fin 3)) \<and>
   driving_distance_miles_ors env_ors ''B'' ''C'' = Inr None \<and>
   map distance_source (stored (mileage env_ors (post form_abc) Absent)) = [''manual''] \<and>
   map one_way_miles (stored (mileage env_ors (post form_abc) Absent)) = [Fin 10] \<and>
   map distance_legs (stored (mileage env_ors (post form_abc) Absent))
     = [[\<lparr>leg_from = ''A'', leg_to = ''B'', miles = Fin 3\<rparr>]] \<and>
   mileage env_ors_down (post form_ab) Absent = Inl RequestException"
proof -
  have "driving_distance_miles_ors env_ors ''A'' ''B'' = Inr (Some (Fin 3))"
    by (simp add: eval_simps env_ors_def)
  moreover have "driving_distance_miles_ors env_ors ''B'' ''C'' = Inr None"
    by (simp add: eval_simps env_ors_def)
  moreover have "map distance_source (stored (mileage env_ors (post form_abc) Absent)) = [''manual'']"
    by (simp add: eval_simps env_ors_def form_abc_def)
  moreover have "map one_way_miles (stored (mileage env_ors (post form_abc) Absent)) = [Fin 10]"
    by (simp add: eval_simps env_ors_def form_abc_def)
  moreover have "map distance_legs (stored (mileage env_ors (post form_abc) Absent))
     = [[\<lparr>leg_from = ''A'', leg_to = ''B'', miles = Fin 3\<rparr>]]"
    by (simp add: eval_simps env_ors_def form_abc_def)
  moreover have "mileage env_ors_down (post form_ab) Absent = Inl RequestException"
    by (simp add: eval_simps env_ors_down_def form_ab_def)
  ultimately show ?thesis by blast
qed

text \<open>
  C2, as stated: a stored trip whose type is \<^verbatim>\<open>round_trip\<close> has twice the one-way
  miles as its total. The code doubles only for the string \<^verbatim>\<open>roundtrip\<close>: a
  submission with the type \<^verbatim>\<open>round_trip\<close> and ten miles is stored with ten total miles.
\<close>

theorem C2_counterexample:
  "trip_type (last (stored (mileage env_manual (post form_round_trip) Absent))) = ''round_trip'' \<and>
   one_way_miles (last (stored (mileage env_manual (post form_round_trip) Absent))) = Fin 10 \<and>
   total_miles (last (stored (mileage env_manual (post form_round_trip) Absent))) = Fin 10 \<and>
   total_miles (last (stored (mileage env_manual (post form_round_trip) Absent)))
     \<noteq> fmul (Fin 2) (one_way_miles (last (stored (mileage env_manual (post form_round_trip) Absent))))"
  by (simp add: eval_simps env_manual_def form_round_trip_def)

text \<open>
  C2, amended. For every accepted submission: the stored type is the submitted one and the
  stored rate is the fetched one; the total is twice the one-way distance when the type is
  \<^verbatim>\<open>roundtrip\<close>, and the one-way distance for every other type; the stored
  one-way miles, total miles and reimbursement are the one-way distance, the total and the
  total times the rate, each rounded to 2 fractional digits, once, from the unrounded number.
  The products are those of binary64 arithmetic.
\<close>

theorem C2_totals:
  assumes "mileage e (post f) file = Inr r" and "written r = Some ts"
  shows "\<exists>ow co cd tot.
           resolve_distance e f = Inr (ow, co, cd) \<and> ts \<noteq> [] \<and>
           trip_type (last ts) = form_get f ''trip_type'' ''one_way'' \<and>
           irs_business_rate (last ts) = fetch_irs_business_rate e \<and>
           tot = (if trip_type (last ts) = ''roundtrip'' then fmul ow (Fin 2) else ow) \<and>
           one_way_miles (last ts) = py_round2 ow \<and>
           total_miles (last ts) = py_round2 tot \<and>
           reimbursement (last ts) = py_round2 (fmul tot (irs_business_rate (last ts))) \<and>
           two_decimals ow (one_way_miles (last ts)) \<and>
           two_decimals tot (total_miles (last ts)) \<and>
           two_decimals (fmul tot (irs_business_rate (last ts))) (reimbursement (last ts))"
proof -
  from assms(1) have mp: "mileage_post e f file = Inr r" by (simp add: mileage_post_eq)
  from mileage_post_written [OF mp assms(2)] obtain ow co cd trips where
    rd: "resolve_distance e f = Inr (ow, co, cd)" and
    ts: "ts = trips @ [build_trip e f (fetch_irs_business_rate e) ow co cd]"
    by blast
  define tot where
    "tot = (if form_get f ''trip_type'' ''one_way'' = ''roundtrip'' then fmul ow (Fin 2) else ow)"
  have l: "last ts = build_trip e f (fetch_irs_business_rate e) ow co cd"
    by (simp add: ts)
  have f1: "trip_type (last ts) = form_get f ''trip_type'' ''one_way''"
    and f2: "irs_business_rate (last ts) = fetch_irs_business_rate e"
    and f3: "one_way_miles (last ts) = py_round2 ow"
    and f4: "total_miles (last ts) = py_round2 tot"
    and f5: "reimbursement (last ts) = py_round2 (fmul tot (fetch_irs_business_rate e))"
    by (simp_all add: l build_trip_def Let_def tot_def)
  have t1: "two_decimals ow (one_way_miles (last ts))"
    unfolding f3 by (rule py_round2_two_decimals)
  have t2: "two_decimals tot (total_miles (last ts))"
    unfolding f4 by (rule py_round2_two_decimals)
  have t3: "two_decimals (fmul tot (irs_business_rate (last ts))) (reimbursement (last ts))"
    unfolding f5 f2 by (rule py_round2_two_decimals)
  have ne: "ts \<noteq> []" by (simp add: ts)
  have tt: "tot = (if trip_type (last ts) = ''roundtrip'' then fmul ow (Fin 2) else ow)"
    by (simp add: f1 tot_def)
  from rd ne f1 f2 tt f3 f4 f5 t1 t2 t3 show ?thesis
    unfolding f2 [symmetric] by blast
qed

theorem C2_totals_witness:
  "mileage env_manual (post form_eighth) Absent
     = Inr (reply_of (mileage env_manual (post form_eighth) Absent)) \<and>
   written (reply_of (mileage env_manual (post form_eighth) Absent))
     = Some (stored (mileage env_manual (post form_eighth) Absent)) \<and>
   resolve_distance env_manual form_eighth = Inr (Fin 0.125, None, []) \<and>
   trip_type (last (stored (mileage env_manual (post form_eighth) Absent))) = ''roundtrip'' \<and>
   irs_business_rate (last (stored (mileage env_manual (post form_eighth) Absent))) = lit 0.70 \<and>
   one_way_miles (last (stored (mileage env_manual (post form_eighth) Absent))) = lit 0.12 \<and>
   total_miles (last (stored (mileage env_manual (post form_eighth) Absent))) = Fin 0.25 \<and>
   fmul (fmul (Fin 0.125) (Fin 2)) (lit 0.70) = Fin (3152519739159347 / 18014398509481984) \<and>
   reimbursement (last (stored (mileage env_manual (post form_eighth) Absent))) = lit 0.17 \<and>
   mileage env_manual (post form_five_eighths) Absent
     = Inr (reply_of (mileage env_manual (post form_five_eighths) Absent)) \<and>
   written (reply_of (mileage env_manual (post form_five_eighths) Absent))
     = Some (stored (mileage env_manual (post form_five_eighths) Absent)) \<and>
   resolve_distance env_manual form_five_eighths = Inr (Fin 0.625, None, []) \<and>
   one_way_miles (last (stored (mileage env_manual (post form_five_eighths) Absent))) = lit 0.62 \<and>
   total_miles (last (stored (mileage env_manual (post form_five_eighths) Absent))) = Fin 1.25 \<and>
   fmul (fmul (Fin 0.625) (Fin 2)) (lit 0.70) = Fin 0.875 \<and>
   reimbursement (last (stored (mileage env_manual (post form_five_eighths) Absent))) = lit 0.88 \<and>
   lit 0.70 = Fin (3152519739159347 / 4503599627370496) \<and>
   lit 0.12 = Fin (1080863910568919 / 9007199254740992) \<and>
   lit 0.17 = Fin (6124895493223875 / 36028797018963968) \<and>
   lit 0.62 = Fin (5584463537939415 / 9007199254740992) \<and>
   lit 0.88 = Fin (7926335344172073 / 9007199254740992)"
proof -
  let ?res = "mileage env_manual (post form_eighth) Absent"
  let ?res' = "mileage env_manual (post form_five_eighths) Absent"
  have rate: "fetch_irs_business_rate env_manual = lit 0.70"
    by (simp add: fetch_irs_business_rate_def env_manual_def float_simps)
  have l70: "lit 0.70 = Fin (3152519739159347 / 4503599627370496)"
    by (simp add: float_simps)
  have l12: "lit 0.12 = Fin (1080863910568919 / 9007199254740992)"
    by (simp add: float_simps)
  have l17: "lit 0.17 = Fin (6124895493223875 / 36028797018963968)"
    by (simp add: float_simps)
  have l62: "lit 0.62 = Fin (5584463537939415 / 9007199254740992)"
    by (simp add: float_simps)
  have l88: "lit 0.88 = Fin (7926335344172073 / 9007199254740992)"
    by (simp add: float_simps)
  have h1: "?res = Inr (reply_of ?res)"
    by (simp add: eval_simps env_manual_def form_eighth_def)
  have h2: "written (reply_of ?res) = Some (stored ?res)"
    by (simp add: eval_simps env_manual_def form_eighth_def)
  have rd: "resolve_distance env_manual form_eighth = Inr (Fin 0.125, None, [])"
    by (simp add: eval_simps env_manual_def form_eighth_def)
  have tt: "form_get form_eighth ''trip_type'' ''one_way'' = ''roundtrip''"
    by (simp add: form_get_def form_eighth_def)
  have r0: "py_round2 (Fin 0.125) = lit 0.12"
    by (simp add: float_simps)
  have d: "fmul (Fin 0.125) (Fin 2) = Fin 0.25"
    by (simp add: float_simps)
  have r1: "py_round2 (Fin 0.25) = Fin 0.25"
    by (simp add: float_simps)
  have pr: "fmul (Fin 0.25) (lit 0.70) = Fin (3152519739159347 / 18014398509481984)"
    by (simp add: float_simps)
  have r2: "py_round2 (Fin (3152519739159347 / 18014398509481984)) = lit 0.17"
    by (simp add: float_simps)
  from C2_totals [OF h1 h2] obtain ow co cd tot where
    c: "resolve_distance env_manual form_eighth = Inr (ow, co, cd)"
       "trip_type (last (stored ?res)) = form_get form_eighth ''trip_type'' ''one_way''"
       "irs_business_rate (last (stored ?res)) = fetch_irs_business_rate env_manual"
       "tot = (if trip_type (last (stored ?res)) = ''roundtrip'' then fmul ow (Fin 2) else ow)"
       "one_way_miles (last (stored ?res)) = py_round2 ow"
       "total_miles (last (stored ?res)) = py_round2 tot"
       "reimbursement (last (stored ?res)) = py_round2 (fmul tot (irs_business_rate (last (stored ?res))))"
    by blast
  from c(1) rd have ow: "ow = Fin 0.125" by simp
  from c(2) tt have t: "trip_type (last (stored ?res)) = ''roundtrip''" by simp
  from c(4) t ow d have tot: "tot = Fin 0.25" by simp
  from c(5) ow r0 have o: "one_way_miles (last (stored ?res)) = lit 0.12" by simp
  from c(6) tot r1 have tm: "total_miles (last (stored ?res)) = Fin 0.25" by simp
  from c(3) rate have ir: "irs_business_rate (last (stored ?res)) = lit 0.70" by simp
  from c(7) tot ir pr r2 have re: "reimbursement (last (stored ?res)) = lit 0.17" by simp
  from d pr have pr': "fmul (fmul (Fin 0.125) (Fin 2)) (lit 0.70)
      = Fin (3152519739159347 / 18014398509481984)" by simp
  have h1': "?res' = Inr (reply_of ?res')"
    by (simp add: eval_simps env_manual_def form_five_eighths_def)
  have h2': "written (reply_of ?res') = Some (stored ?res')"
    by (simp add: eval_simps env_manual_def form_five_eighths_def)
  have rd': "resolve_distance env_manual form_five_eighths = Inr (Fin 0.625, None, [])"
    by (simp add: eval_simps env_manual_def form_five_eighths_def)
  have tt': "form_get form_five_eighths ''trip_type'' ''one_way'' = ''roundtrip''"
    by (simp add: form_get_def form_five_eighths_def)
  have r0': "py_round2 (Fin 0.625) = lit 0.62"
    by (simp add: float_simps)
  have d': "fmul (Fin 0.625) (Fin 2) = Fin 1.25"
    by (simp add: float_simps)
  have r1': "py_round2 (Fin 1.25) = Fin 1.25"
    by (simp add: float_simps)
  have p': "fmul (Fin 1.25) (lit 0.70) = Fin 0.875"
    by (simp add: float_simps)
  have r2': "py_round2 (Fin 0.875) = lit 0.88"
    by (simp add: float_simps)
  from C2_totals [OF h1' h2'] obtain ow' co' cd' tot' where
    c': "resolve_distance env_manual form_five_eighths = Inr (ow', co', cd')"
       "trip_type (last (stored ?res')) = form_get form_five_eighths ''trip_type'' ''one_way''"
       "irs_business_rate (last (stored ?res')) = fetch_irs_business_rate env_manual"
       "tot' = (if trip_type (last (stored ?res')) = ''roundtrip'' then fmul ow' (Fin 2) else ow')"
       "one_way_miles (last (stored ?res')) = py_round2 ow'"
       "total_miles (last (stored ?res')) = py_round2 tot'"
       "reimbursement (last (stored ?res')) = py_round2 (fmul tot' (irs_business_rate (last (stored ?res'))))"
    by blast
  from c'(1) rd' have ow': "ow' = Fin 0.625" by simp
  from c'(2) tt' have t': "trip_type (last (stored ?res')) = ''roundtrip''" by simp
  from c'(4) t' ow' d' have tot': "tot' = Fin 1.25" by simp
  from c'(5) ow' r0' have o': "one_way_miles (last (stored ?res')) = lit 0.62" by simp
  from c'(6) tot' r1' have tm': "total_miles (last (stored ?res')) = Fin 1.25" by simp
  from c'(3) rate have ir': "irs_business_rate (last (stored ?res')) = lit 0.70" by simp
  from c'(7) tot' ir' p' r2' have re': "reimbursement (last (stored ?res')) = lit 0.88" by simp
  from d' p' have p'': "fmul (fmul (Fin 0.625) (Fin 2)) (lit 0.70) = Fin 0.875" by simp
  from h1 h2 rd t ir o tm pr' re h1' h2' rd' o' tm' p'' re' l70 l12 l17 l62 l88
  show ?thesis by blast
qed

text \<open>
  C3, as stated: the stored source is one of \<^verbatim>\<open>resolved\<close> and \<^verbatim>\<open>manual\<close>.
  The code names the computed source \<^verbatim>\<open>openrouteservice\<close>: from \<^verbatim>\<open>A\<close> to
  \<^verbatim>\<open>B\<close>, where the single leg is computed, the stored source is that string.
\<close>

theorem C3_counterexample:
  "driving_distance_miles_ors env_ors ''A'' ''B'' = Inr (Some (Fin 3)) \<and>
   distance_source (last (stored (mileage env_ors (post form_ab) Absent))) = ''openrouteservice'' \<and>
   distance_source (last (stored (mileage env_ors (post form_ab) Absent))) \<notin> {''resolved'', ''manual''}"
  by (simp add: eval_simps env_ors_def form_ab_def)

text \<open>
  C3, amended. For every trip the mileage view stores, the source is one of
  \<^verbatim>\<open>openrouteservice\<close> and \<^verbatim>\<open>manual\<close>, and it is
  \<^verbatim>\<open>openrouteservice\<close> exactly when the key is configured and the distance function
  returned a distance for every consecutive pair of the waypoints (start, the stops that have
  an address, end); it is \<^verbatim>\<open>manual\<close> otherwise.
\<close>

theorem C3_distance_source:
  assumes "mileage e (post f) file = Inr r" and "written r = Some ts"
  shows "ts \<noteq> [] \<and>
         distance_source (last ts) \<in> {''openrouteservice'', ''manual''} \<and>
         (distance_source (last ts) = ''openrouteservice'' \<longleftrightarrow>
            \<not> no_key e \<and>
            (\<forall>p\<in>set (zip (points (strip (form_get f ''start_address'' [])) (read_stops f [1..<6])
                              (strip (form_get f ''end_address'' [])))
                         (tl (points (strip (form_get f ''start_address'' [])) (read_stops f [1..<6])
                              (strip (form_get f ''end_address'' []))))).
               \<exists>d. driving_distance_miles_ors e (fst p) (snd p) = Inr (Some d)))"
proof -
  from assms(1) have mp: "mileage_post e f file = Inr r" by (simp add: mileage_post_eq)
  from mileage_post_written [OF mp assms(2)] obtain ow co cd trips where
    rd: "resolve_distance e f = Inr (ow, co, cd)" and
    s: "strip (form_get f ''start_address'' []) \<noteq> []" and
    en: "strip (form_get f ''end_address'' []) \<noteq> []" and
    ts: "ts = trips @ [build_trip e f (fetch_irs_business_rate e) ow co cd]"
    by blast
  from resolve_distance_Inr [OF rd] have
    rl: "route_legs e (strip (form_get f ''start_address'' [])) (strip (form_get f ''end_address'' []))
           (read_stops f [1..<6]) = Inr (co, cd)" by simp
  have src: "distance_source (last ts) = (if co \<noteq> None then ''openrouteservice'' else ''manual'')"
    by (simp add: ts build_trip_def Let_def)
  have ne: "ts \<noteq> []" by (simp add: ts)
  from route_legs_computed [OF rl] s en have
    "co \<noteq> None \<longleftrightarrow>
       \<not> no_key e \<and>
       (\<forall>p\<in>set (zip (points (strip (form_get f ''start_address'' [])) (read_stops f [1..<6])
                         (strip (form_get f ''end_address'' [])))
                    (tl (points (strip (form_get f ''start_address'' [])) (read_stops f [1..<6])
                         (strip (form_get f ''end_address'' []))))).
          \<exists>d. driving_distance_miles_ors e (fst p) (snd p) = Inr (Some d))"
    by simp
  with src ne show ?thesis by (cases co) simp_all
qed

theorem C3_distance_source_witness:
  "mileage env_ors (post form_abc) Absent = Inr (reply_of (mileage env_ors (post form_abc) Absent)) \<and>
   written (reply_of (mileage env_ors (post form_abc) Absent))
     = Some (stored (mileage env_ors (post form_abc) Absent)) \<and>
   points (strip (form_get form_abc ''start_address'' [])) (read_stops form_abc [1..<6])
     (strip (form_get form_abc ''end_address'' [])) = [''A'', ''B'', ''C''] \<and>
   driving_distance_miles_ors env_ors ''B'' ''C'' = Inr None \<and>
   distance_source (last (stored (mileage env_ors (post form_abc) Absent))) = ''manual''"
proof -
  let ?res = "mileage env_ors (post form_abc) Absent"
  have h1: "?res = Inr (reply_of ?res)"
    by (simp add: eval_simps env_ors_def form_abc_def)
  have h2: "written (reply_of ?res) = Some (stored ?res)"
    by (simp add: eval_simps env_ors_def form_abc_def)
  have pts: "points (strip (form_get form_abc ''start_address'' [])) (read_stops form_abc [1..<6])
     (strip (form_get form_abc ''end_address'' [])) = [''A'', ''B'', ''C'']"
    by (simp add: eval_simps form_abc_def)
  have bc: "driving_distance_miles_ors env_ors ''B'' ''C'' = Inr None"
    by (simp add: eval_simps env_ors_def)
  from C3_distance_source [OF h1 h2] have
    "distance_source (last (stored ?res)) \<in> {''openrouteservice'', ''manual''}" and
    iff: "distance_source (last (stored ?res)) = ''openrouteservice'' \<longleftrightarrow>
       \<not> no_key env_ors \<and>
       (\<forall>p\<in>set (zip [''A'', ''B'', ''C''] (tl [''A'', ''B'', ''C''])).
          \<exists>d. driving_distance_miles_ors env_ors (fst p) (snd p) = Inr (Some d))"
    unfolding pts by blast+
  from iff bc have "distance_source (last (stored ?res)) \<noteq> ''openrouteservice''" by simp
  with \<open>distance_source (last (stored ?res)) \<in> {''openrouteservice'', ''manual''}\<close>
  have "distance_source (last (stored ?res)) = ''manual''" by blast
  with h1 h2 pts bc show ?thesis by blast
qed

text \<open>
  C4. An amendment whose \<^verbatim>\<open>created_at\<close> is in no trip of the loaded ledger does
  not call \<^verbatim>\<open>_write_trips\<close>, so the file stays as it is, and flashes
  \<^verbatim>\<open>Trip not found.\<close>
\<close>

theorem C4_not_found:
  assumes "read_trips file = Inr trips"
      and "\<forall>t\<in>set trips. Some (created_at t) \<noteq> f ''created_at''"
  shows "costs_view e (post f) file =
           Inr \<lparr>flashed = [flash_not_found], response = Redirect ''costs'', written = None\<rparr> \<and>
         file_after file \<lparr>flashed = [flash_not_found], response = Redirect ''costs'', written = None\<rparr>
           = file"
  using assms
  by (simp add: costs_view_def post_def costs_post_def Let_def costs_loop_no_match file_after_def)

theorem C4_not_found_witness:
  "read_trips ledger_ab = Inr [trip_a, trip_b] \<and>
   Some (created_at trip_a) \<noteq> form_costs_missing ''created_at'' \<and>
   Some (created_at trip_b) \<noteq> form_costs_missing ''created_at'' \<and>
   flashed (reply_of (costs_view env_manual (post form_costs_missing) ledger_ab))
     = [(''Trip not found.'', ''danger'')] \<and>
   written (reply_of (costs_view env_manual (post form_costs_missing) ledger_ab)) = None \<and>
   file_after ledger_ab (reply_of (costs_view env_manual (post form_costs_missing) ledger_ab))
     = ledger_ab"
proof -
  have h1: "read_trips ledger_ab = Inr [trip_a, trip_b]"
    by (simp add: ledger_ab_def)
  have a: "Some (created_at trip_a) \<noteq> form_costs_missing ''created_at''"
    by (simp add: trip_a_def form_costs_missing_def)
  have b: "Some (created_at trip_b) \<noteq> form_costs_missing ''created_at''"
    by (simp add: trip_b_def form_costs_missing_def)
  from a b have h2: "\<forall>t\<in>set [trip_a, trip_b]. Some (created_at t) \<noteq> form_costs_missing ''created_at''"
    by simp
  from C4_not_found [where f = form_costs_missing and e = env_manual, OF h1 h2] h1 a b show ?thesis
    by (simp add: reply_of_def flash_not_found_def)
qed

text \<open>
  C5. Two amendments addressed to the same trip (the first trip of the ledger with that
  \<^verbatim>\<open>created_at\<close>): both succeed; afterwards the ledger differs from the original
  one in that trip only; its gas, food and tolls are the values of the second amendment
  (not sums); its tickets are the original ones followed by the ticket of the first amendment,
  if it has a non-empty field after stripping, and then by the ticket of the second, on the
  same condition. So from no tickets, two amendments with a ticket each leave two tickets.
\<close>

theorem C5_two_amendments:
  assumes "read_trips file = Inr trips" and "i < length trips"
      and "created_at (trips ! i) = k" and "\<forall>j<i. created_at (trips ! j) \<noteq> k"
      and "f1 ''created_at'' = Some k" and "f2 ''created_at'' = Some k"
  shows "\<exists>r1 r2 final.
           costs_view e (post f1) file = Inr r1 \<and>
           costs_view e (post f2) (file_after file r1) = Inr r2 \<and>
           read_trips (file_after (file_after file r1) r2) = Inr (trips[i := final]) \<and>
           final = (trips ! i)
             \<lparr>costs :=
                \<lparr>gas = safe_float e (f2 ''gas'') (Fin 0),
                 food = safe_float e (f2 ''food'') (Fin 0),
                 tolls = safe_float e (f2 ''tolls'') (Fin 0),
                 tickets = tickets (costs (trips ! i))
                   @ (if any_field (form_ticket f1) then [form_ticket f1] else [])
                   @ (if any_field (form_ticket f2) then [form_ticket f2] else [])\<rparr>\<rparr> \<and>
           (any_field (form_ticket f1) \<and> any_field (form_ticket f2) \<and>
              tickets (costs (trips ! i)) = [] \<longrightarrow> length (tickets (costs final)) = 2)"
proof -
  let ?u1 = "update_costs (safe_float e (f1 ''gas'') (Fin 0)) (safe_float e (f1 ''food'') (Fin 0))
               (safe_float e (f1 ''tolls'') (Fin 0)) (form_ticket f1) (trips ! i)"
  let ?t1 = "trips[i := ?u1]"
  let ?r1 = "\<lparr>flashed = [flash_updated], response = Redirect ''costs'', written = Some ?t1\<rparr>"
  let ?u2 = "update_costs (safe_float e (f2 ''gas'') (Fin 0)) (safe_float e (f2 ''food'') (Fin 0))
               (safe_float e (f2 ''tolls'') (Fin 0)) (form_ticket f2) (?t1 ! i)"
  let ?t2 = "?t1[i := ?u2]"
  let ?r2 = "\<lparr>flashed = [flash_updated], response = Redirect ''costs'', written = Some ?t2\<rparr>"
  have c1: "costs_view e (post f1) file = Inr ?r1"
    using assms by (intro costs_post_match) auto
  have f1: "read_trips (file_after file ?r1) = Inr ?t1"
    by (simp add: file_after_def write_trips_def)
  have k1: "created_at (?t1 ! i) = k"
    using assms(2,3) by (simp add: update_costs_def)
  have n1: "\<forall>j<i. created_at (?t1 ! j) \<noteq> k"
    using assms(4) by simp
  have c2: "costs_view e (post f2) (file_after file ?r1) = Inr ?r2"
    using f1 assms(2) k1 n1 assms(6) by (intro costs_post_match) auto
  have f2: "read_trips (file_after (file_after file ?r1) ?r2) = Inr ?t2"
    by (simp add: file_after_def write_trips_def)
  have u2: "?u2 = (trips ! i)
             \<lparr>costs :=
                \<lparr>gas = safe_float e (f2 ''gas'') (Fin 0),
                 food = safe_float e (f2 ''food'') (Fin 0),
                 tolls = safe_float e (f2 ''tolls'') (Fin 0),
                 tickets = tickets (costs (trips ! i))
                   @ (if any_field (form_ticket f1) then [form_ticket f1] else [])
                   @ (if any_field (form_ticket f2) then [form_ticket f2] else [])\<rparr>\<rparr>"
    using assms(2) by (simp add: update_costs_def)
  have t2: "?t2 = trips[i := ?u2]" by simp
  have len: "any_field (form_ticket f1) \<and> any_field (form_ticket f2) \<and>
              tickets (costs (trips ! i)) = [] \<longrightarrow> length (tickets (costs ?u2)) = 2"
    by (simp add: u2)
  from c1 c2 f2 u2 t2 len show ?thesis by metis
qed

theorem C5_two_amendments_witness:
  "read_trips ledger_ab = Inr [trip_a, trip_b] \<and>
   created_at ([trip_a, trip_b] ! 1) = ''2025-01-02T08:00:00Z'' \<and>
   created_at ([trip_a, trip_b] ! 0) \<noteq> ''2025-01-02T08:00:00Z'' \<and>
   form_costs_1 ''created_at'' = Some ''2025-01-02T08:00:00Z'' \<and>
   form_costs_2 ''created_at'' = Some ''2025-01-02T08:00:00Z'' \<and>
   read_trips
     (file_after
        (file_after ledger_ab (reply_of (costs_view env_manual (post form_costs_1) ledger_ab)))
        (reply_of (costs_view env_manual (post form_costs_2)
           (file_after ledger_ab (reply_of (costs_view env_manual (post form_costs_1) ledger_ab))))))
     = Inr [trip_a,
            trip_b\<lparr>costs :=
              \<lparr>gas = Fin 40, food = Fin 0, tolls = Fin 0,
               tickets =
                 [\<lparr>state = [], county = [], department = [], citing_officer = [],
                   ticket_number = ''T1''\<rparr>,
                  \<lparr>state = ''WA'', county = [], department = [], citing_officer = [],
                   ticket_number = []\<rparr>]\<rparr>\<rparr>]"
proof -
  have h1: "read_trips ledger_ab = Inr [trip_a, trip_b]"
    by (simp add: ledger_ab_def)
  have h2: "(1::nat) < length [trip_a, trip_b]" by simp
  have h3: "created_at ([trip_a, trip_b] ! 1) = ''2025-01-02T08:00:00Z''"
    by (simp add: trip_b_def)
  have h0: "created_at ([trip_a, trip_b] ! 0) \<noteq> ''2025-01-02T08:00:00Z''"
    by (simp add: trip_a_def)
  then have h4: "\<forall>j<(1::nat). created_at ([trip_a, trip_b] ! j) \<noteq> ''2025-01-02T08:00:00Z''"
    by simp
  have h5: "form_costs_1 ''created_at'' = Some ''2025-01-02T08:00:00Z''"
    by (simp add: form_costs_1_def)
  have h6: "form_costs_2 ''created_at'' = Some ''2025-01-02T08:00:00Z''"
    by (simp add: form_costs_2_def)
  have t1: "form_ticket form_costs_1 =
      \<lparr>state = [], county = [], department = [], citing_officer = [], ticket_number = ''T1''\<rparr>"
    by (simp add: form_ticket_def form_costs_1_def form_get_def strip_def is_space_def)
  have t2: "form_ticket form_costs_2 =
      \<lparr>state = ''WA'', county = [], department = [], citing_officer = [], ticket_number = []\<rparr>"
    by (simp add: form_ticket_def form_costs_2_def form_get_def strip_def is_space_def)
  have g: "safe_float env_manual (form_costs_2 ''gas'') (Fin 0) = Fin 40"
          "safe_float env_manual (form_costs_2 ''food'') (Fin 0) = Fin 0"
          "safe_float env_manual (form_costs_2 ''tolls'') (Fin 0) = Fin 0"
    by (simp_all add: safe_float_def form_costs_2_def env_manual_def float_table_def)
  have tk: "tickets (costs trip_b) = []" by (simp add: trip_b_def)
  from C5_two_amendments [where ?f1.0 = form_costs_1 and ?f2.0 = form_costs_2 and e = env_manual,
      OF h1 h2 h3 h4 h5 h6] obtain r1 r2 final where
    c1: "costs_view env_manual (post form_costs_1) ledger_ab = Inr r1" and
    c2: "costs_view env_manual (post form_costs_2) (file_after ledger_ab r1) = Inr r2" and
    rt: "read_trips (file_after (file_after ledger_ab r1) r2) = Inr ([trip_a, trip_b][1 := final])" and
    fin: "final = ([trip_a, trip_b] ! 1)
             \<lparr>costs :=
                \<lparr>gas = safe_float env_manual (form_costs_2 ''gas'') (Fin 0),
                 food = safe_float env_manual (form_costs_2 ''food'') (Fin 0),
                 tolls = safe_float env_manual (form_costs_2 ''tolls'') (Fin 0),
                 tickets = tickets (costs ([trip_a, trip_b] ! 1))
                   @ (if any_field (form_ticket form_costs_1) then [form_ticket form_costs_1] else [])
                   @ (if any_field (form_ticket form_costs_2) then [form_ticket form_costs_2] else [])\<rparr>\<rparr>"
    by blast
  have r1: "reply_of (costs_view env_manual (post form_costs_1) ledger_ab) = r1"
    by (simp add: c1 reply_of_def)
  have r2: "reply_of (costs_view env_manual (post form_costs_2) (file_after ledger_ab r1)) = r2"
    by (simp add: c2 reply_of_def)
  have "final = trip_b\<lparr>costs :=
              \<lparr>gas = Fin 40, food = Fin 0, tolls = Fin 0,
               tickets =
                 [\<lparr>state = [], county = [], department = [], citing_officer = [],
                   ticket_number = ''T1''\<rparr>,
                  \<lparr>state = ''WA'', county = [], department = [], citing_officer = [],
                   ticket_number = []\<rparr>]\<rparr>\<rparr>"
    by (simp add: fin g t1 t2 tk any_field_def)
  with rt have "read_trips (file_after (file_after ledger_ab r1) r2) = Inr [trip_a,
            trip_b\<lparr>costs :=
              \<lparr>gas = Fin 40, food = Fin 0, tolls = Fin 0,
               tickets =
                 [\<lparr>state = [], county = [], department = [], citing_officer = [],
                   ticket_number = ''T1''\<rparr>,
                  \<lparr>state = ''WA'', county = [], department = [], citing_officer = [],
                   ticket_number = []\<rparr>]\<rparr>\<rparr>]"
    by simp
  with h1 h3 h0 h5 h6 show ?thesis unfolding r1 r2 by blast
qed

text \<open>
  C6. The claim: whatever the state of the file, loading returns and never raises; an absent
  file and an unparseable one both give the empty list. The absent file and the text that is
  not JSON do give the empty list. A file whose bytes are not UTF-8 makes
  \<^verbatim>\<open>read_text\<close> raise \<^verbatim>\<open>UnicodeDecodeError\<close>, which the
  \<^verbatim>\<open>except json.JSONDecodeError\<close> clause does not catch: loading raises.
\<close>

theorem C6_read_trips:
  "read_trips Absent = Inr [] \<and> read_trips Unparseable = Inr [] \<and>
   read_trips Undecodable = Inl UnicodeDecodeError"
  by simp

text \<open>
  C7. Ten miles of one-way distance, by whichever path produced them, and 1.5 extra miles, a
  one-way trip and the rate 0.70: the submission is accepted and the stored trip has 11.5
  one-way miles, 11.5 total miles and the reimbursement 8.05. In binary64 the product of 11.5
  and 0.70 is the number just below 8.05, and rounding to 2 fractional digits gives 8.05.
\<close>

theorem C7_example:
  assumes "route_legs e (strip (form_get f ''start_address'' [])) (strip (form_get f ''end_address'' []))
             (read_stops f [1..<6]) = Inr (co, cd)"
      and "(case co of Some c \<Rightarrow> c | None \<Rightarrow> safe_float e (f ''manual_one_way_miles'') (Fin 0)) = Fin 10"
      and "safe_float e (f ''manual_stop_miles'') (Fin 0) = Fin 1.5"
      and "form_get f ''trip_type'' ''one_way'' = ''one_way''"
      and "fetch_irs_business_rate e = lit 0.70"
      and "strip (form_get f ''start_address'' []) \<noteq> []"
      and "strip (form_get f ''end_address'' []) \<noteq> []"
      and "read_trips file = Inr trips"
  shows "\<exists>t. mileage e (post f) file =
               Inr \<lparr>flashed = [flash_saved], response = Redirect ''index'',
                    written = Some (trips @ [t])\<rparr> \<and>
             one_way_miles t = Fin 11.5 \<and> total_miles t = Fin 11.5 \<and>
             reimbursement t = lit 8.05 \<and>
             fmul (Fin 11.5) (lit 0.70) = Fin (4531747125041561 / 562949953421312) \<and>
             lit 8.05 = Fin (4531747125041562 / 562949953421312)"
proof -
  have a: "fadd (Fin 10) (Fin 1.5) = Fin 11.5"
    by (simp add: float_simps)
  have rd: "resolve_distance e f = Inr (Fin 11.5, co, cd)"
    using assms(1,2,3) a by (simp add: resolve_distance_def Let_def final_one_way_def)
  have le: "\<not> fle (Fin 11.5) (Fin 0)" by simp
  have r1: "py_round2 (Fin 11.5) = Fin 11.5"
    by (simp add: float_simps)
  have pr: "fmul (Fin 11.5) (lit 0.70) = Fin (4531747125041561 / 562949953421312)"
    by (simp add: float_simps)
  have l: "lit 8.05 = Fin (4531747125041562 / 562949953421312)"
    by (simp add: float_simps)
  have r2: "py_round2 (Fin (4531747125041561 / 562949953421312)) = lit 8.05"
    by (simp add: float_simps)
  have bt: "one_way_miles (build_trip e f (lit 0.70) (Fin 11.5) co cd) = Fin 11.5 \<and>
            total_miles (build_trip e f (lit 0.70) (Fin 11.5) co cd) = Fin 11.5 \<and>
            reimbursement (build_trip e f (lit 0.70) (Fin 11.5) co cd) = lit 8.05"
    using assms(4) r1 pr r2 by (simp add: build_trip_def Let_def)
  have "mileage e (post f) file =
          Inr \<lparr>flashed = [flash_saved], response = Redirect ''index'',
               written = Some (trips @ [build_trip e f (lit 0.70) (Fin 11.5) co cd])\<rparr>"
    using rd le assms(5-8)
    by (simp add: mileage_post_eq mileage_post_def Let_def)
  with bt pr l show ?thesis by blast
qed

theorem C7_example_witness:
  "route_legs env_manual (strip (form_get form_one_way ''start_address'' []))
     (strip (form_get form_one_way ''end_address'' [])) (read_stops form_one_way [1..<6])
     = Inr (None, []) \<and>
   safe_float env_manual (form_one_way ''manual_one_way_miles'') (Fin 0) = Fin 10 \<and>
   safe_float env_manual (form_one_way ''manual_stop_miles'') (Fin 0) = Fin 1.5 \<and>
   form_get form_one_way ''trip_type'' ''one_way'' = ''one_way'' \<and>
   fetch_irs_business_rate env_manual = lit 0.70 \<and>
   map one_way_miles (stored (mileage env_manual (post form_one_way) Absent)) = [Fin 11.5] \<and>
   map total_miles (stored (mileage env_manual (post form_one_way) Absent)) = [Fin 11.5] \<and>
   map reimbursement (stored (mileage env_manual (post form_one_way) Absent)) = [lit 8.05]"
proof -
  have h1: "route_legs env_manual (strip (form_get form_one_way ''start_address'' []))
     (strip (form_get form_one_way ''end_address'' [])) (read_stops form_one_way [1..<6])
     = Inr (None, [])"
    by (simp add: route_legs_def no_key_def env_manual_def)
  have m: "safe_float env_manual (form_one_way ''manual_one_way_miles'') (Fin 0) = Fin 10"
    by (simp add: safe_float_def form_one_way_def env_manual_def float_table_def)
  then have h2: "(case None of Some c \<Rightarrow> c
       | None \<Rightarrow> safe_float env_manual (form_one_way ''manual_one_way_miles'') (Fin 0)) = Fin 10"
    by simp
  have h3: "safe_float env_manual (form_one_way ''manual_stop_miles'') (Fin 0) = Fin 1.5"
    by (simp add: safe_float_def form_one_way_def env_manual_def float_table_def)
  have h4: "form_get form_one_way ''trip_type'' ''one_way'' = ''one_way''"
    by (simp add: form_get_def form_one_way_def)
  have h5: "fetch_irs_business_rate env_manual = lit 0.70"
    by (simp add: fetch_irs_business_rate_def env_manual_def float_simps)
  have h6: "strip (form_get form_one_way ''start_address'' []) \<noteq> []"
    by (simp add: form_get_def form_one_way_def strip_def is_space_def)
  have h7: "strip (form_get form_one_way ''end_address'' []) \<noteq> []"
    by (simp add: form_get_def form_one_way_def strip_def is_space_def)
  have h8: "read_trips Absent = Inr []" by simp
  from C7_example [OF h1 h2 h3 h4 h5 h6 h7 h8] obtain t where
    "mileage env_manual (post form_one_way) Absent =
       Inr \<lparr>flashed = [flash_saved], response = Redirect ''index'', written = Some ([] @ [t])\<rparr>"
    and "one_way_miles t = Fin 11.5" and "total_miles t = Fin 11.5" and "reimbursement t = lit 8.05"
    by blast
  then have "map one_way_miles (stored (mileage env_manual (post form_one_way) Absent)) = [Fin 11.5] \<and>
   map total_miles (stored (mileage env_manual (post form_one_way) Absent)) = [Fin 11.5] \<and>
   map reimbursement (stored (mileage env_manual (post form_one_way) Absent)) = [lit 8.05]"
    by (simp add: stored_def)
  with h1 m h3 h4 h5 show ?thesis by blast
qed

text \<open>
  C8. An accepted submission writes the loaded ledger followed by the new trip: every trip
  that was loaded is there, unchanged and at its place, the new trip is last, and loading
  the file afterwards gives that list.
\<close>

theorem C8_append:
  assumes "mileage e (post f) file = Inr r" and "written r = Some ts"
  shows "\<exists>old t. read_trips file = Inr old \<and> ts = old @ [t] \<and>
           read_trips (file_after file r) = Inr (old @ [t]) \<and>
           take (length old) ts = old \<and> last ts = t"
proof -
  from assms(1) have mp: "mileage_post e f file = Inr r" by (simp add: mileage_post_eq)
  from mileage_post_written [OF mp assms(2)] obtain ow co cd trips where
    rt: "read_trips file = Inr trips" and
    ts: "ts = trips @ [build_trip e f (fetch_irs_business_rate e) ow co cd]"
    by blast
  show ?thesis
    using rt assms(2) by (simp add: ts file_after_def write_trips_def)
qed

theorem C8_append_witness:
  "mileage env_manual (post form_one_way) ledger_ab
     = Inr (reply_of (mileage env_manual (post form_one_way) ledger_ab)) \<and>
   written (reply_of (mileage env_manual (post form_one_way) ledger_ab))
     = Some (stored (mileage env_manual (post form_one_way) ledger_ab)) \<and>
   read_trips ledger_ab = Inr [trip_a, trip_b] \<and>
   length (stored (mileage env_manual (post form_one_way) ledger_ab)) = 3 \<and>
   take 2 (stored (mileage env_manual (post form_one_way) ledger_ab)) = [trip_a, trip_b] \<and>
   read_trips (file_after ledger_ab (reply_of (mileage env_manual (post form_one_way) ledger_ab)))
     = Inr (stored (mileage env_manual (post form_one_way) ledger_ab))"
proof -
  let ?res = "mileage env_manual (post form_one_way) ledger_ab"
  have h1: "?res = Inr (reply_of ?res)"
    by (simp add: eval_simps env_manual_def form_one_way_def ledger_ab_def)
  have h2: "written (reply_of ?res) = Some (stored ?res)"
    by (simp add: eval_simps env_manual_def form_one_way_def ledger_ab_def)
  have l: "read_trips ledger_ab = Inr [trip_a, trip_b]"
    by (simp add: ledger_ab_def)
  from C8_append [OF h1 h2] l obtain t where
    ts: "stored ?res = [trip_a, trip_b] @ [t]" and
    rt: "read_trips (file_after ledger_ab (reply_of ?res)) = Inr ([trip_a, trip_b] @ [t])"
    by auto
  from ts have "length (stored ?res) = 3" and "take 2 (stored ?res) = [trip_a, trip_b]"
    by simp_all
  with h1 h2 l rt ts show ?thesis by simp
qed

text \<open>
  C9. The claim: a submission whose start or end address is empty, or whose final one-way
  distance is not strictly greater than zero, is rejected with a message and appends nothing.
  The two lemmas \<open>mileage_rejects_address\<close> and \<open>mileage_rejects_miles\<close> above give
  the rejections the code makes; its test is \<^verbatim>\<open>one_way_miles <= 0\<close>. The manual
  miles \<^verbatim>\<open>nan\<close> parse to not-a-number, which is not greater than zero and for
  which the test is false as well: the submission is accepted and the trip is stored.
\<close>

theorem C9_nan_accepted:
  "resolve_distance env_manual form_nan = Inr (NaN, None, []) \<and>
   \<not> fgt NaN (Fin 0) \<and>
   flashed (reply_of (mileage env_manual (post form_nan) Absent)) = [(''Trip saved.'', ''success'')] \<and>
   map one_way_miles (stored (mileage env_manual (post form_nan) Absent)) = [NaN] \<and>
   map start_address (stored (mileage env_manual (post form_nan) Absent)) = [''A'']"
proof -
  have "resolve_distance env_manual form_nan = Inr (NaN, None, [])"
    by (simp add: eval_simps env_manual_def form_nan_def)
  moreover have "\<not> fgt NaN (Fin 0)" by simp
  moreover have "flashed (reply_of (mileage env_manual (post form_nan) Absent))
      = [(''Trip saved.'', ''success'')]"
    by (simp add: eval_simps env_manual_def form_nan_def flash_saved_def)
  moreover have "map one_way_miles (stored (mileage env_manual (post form_nan) Absent)) = [NaN]"
    by (simp add: eval_simps env_manual_def form_nan_def)
  moreover have "map start_address (stored (mileage env_manual (post form_nan) Absent)) = [''A'']"
    by (simp add: eval_simps env_manual_def form_nan_def)
  ultimately show ?thesis by blast
qed

text \<open>
  C10. The mileage view reads the stop slots 1 to 5 only: the stops it reads are at most
  five, a stored trip has exactly those stops, and the address and the time of a slot beyond
  the fifth, present or not, change neither the stops read nor anything else of the view's
  outcome (the waypoints of the route are computed from the stops read).
\<close>

theorem C10_five_stops:
  assumes "5 < i"
  shows "length (read_stops f [1..<6]) \<le> 5 \<and>
         read_stops (f(stop_key i ''address'' := a, stop_key i ''datetime'' := d)) [1..<6]
           = read_stops f [1..<6] \<and>
         mileage e (post (f(stop_key i ''address'' := a, stop_key i ''datetime'' := d))) file
           = mileage e (post f) file \<and>
         (\<forall>r ts. mileage e (post f) file = Inr r \<and> written r = Some ts \<longrightarrow>
            stops (last ts) = read_stops f [1..<6])"
proof -
  have len: "length (read_stops f [1..<6]) \<le> 5"
    using length_read_stops [of f "[1..<6]"] by simp
  have fr: "read_stops (f(stop_key i ''address'' := a, stop_key i ''datetime'' := d)) [1..<6]
              = read_stops f [1..<6]"
    by (rule read_stops_frame [OF assms slots_1_6])
  have rd: "resolve_distance e (f(stop_key i ''address'' := a, stop_key i ''datetime'' := d))
              = resolve_distance e f"
    unfolding resolve_distance_def fr
    by (simp add: form_get_def stop_key_not_field [symmetric])
  have bt: "build_trip e (f(stop_key i ''address'' := a, stop_key i ''datetime'' := d))
              = build_trip e f"
    unfolding build_trip_def fr
    by (simp add: form_get_def stop_key_not_field [symmetric] fun_eq_iff)
  have mp: "mileage_post e (f(stop_key i ''address'' := a, stop_key i ''datetime'' := d)) file
          = mileage_post e f file"
    unfolding mileage_post_def rd bt
    by (simp add: form_get_def stop_key_not_field [symmetric])
  have st: "\<forall>r ts. mileage e (post f) file = Inr r \<and> written r = Some ts \<longrightarrow>
            stops (last ts) = read_stops f [1..<6]"
  proof (intro allI impI)
    fix r ts
    assume "mileage e (post f) file = Inr r \<and> written r = Some ts"
    then have "mileage_post e f file = Inr r" and w: "written r = Some ts"
      by (simp_all add: mileage_post_eq)
    from mileage_post_written [OF this] obtain ow co cd trips where
      "ts = trips @ [build_trip e f (fetch_irs_business_rate e) ow co cd]" by blast
    then show "stops (last ts) = read_stops f [1..<6]"
      by (simp add: build_trip_def Let_def)
  qed
  from len fr mp st show ?thesis by (simp add: mileage_post_eq)
qed

theorem C10_five_stops_witness:
  "(5::nat) < 6 \<and>
   stop_key 6 ''address'' = ''stop_6_address'' \<and>
   mileage env_ors
     (post (form_ab(stop_key 6 ''address'' := Some ''D'', stop_key 6 ''datetime'' := None))) Absent
     = mileage env_ors (post form_ab) Absent \<and>
   map stops (stored (mileage env_ors
     (post (form_ab(stop_key 6 ''address'' := Some ''D'', stop_key 6 ''datetime'' := None))) Absent))
     = [[]] \<and>
   map distance_legs (stored (mileage env_ors
     (post (form_ab(stop_key 6 ''address'' := Some ''D'', stop_key 6 ''datetime'' := None))) Absent))
     = [[\<lparr>leg_from = ''A'', leg_to = ''B'', miles = Fin 3\<rparr>]]"
proof -
  have h: "(5::nat) < 6" by simp
  have k: "stop_key 6 ''address'' = ''stop_6_address''"
    by (simp add: stop_key_def str_nat.simps digit_char_def)
  have s: "map stops (stored (mileage env_ors (post form_ab) Absent)) = [[]]"
    by (simp add: eval_simps env_ors_def form_ab_def)
  have l: "map distance_legs (stored (mileage env_ors (post form_ab) Absent))
     = [[\<lparr>leg_from = ''A'', leg_to = ''B'', miles = Fin 3\<rparr>]]"
    by (simp add: eval_simps env_ors_def form_ab_def)
  from C10_five_stops [OF h, where f = form_ab and a = "Some ''D''" and d = None
      and e = env_ors and ?file = Absent]
  have "mileage env_ors
     (post (form_ab(stop_key 6 ''address'' := Some ''D'', stop_key 6 ''datetime'' := None))) Absent
     = mileage env_ors (post form_ab) Absent"
    by blast
  with h k s l show ?thesis by simp
qed

end
